theory Spec2Isabelle
  imports Main
begin

section \<open>JavaScript string primitives used by the command\<close>

text \<open>
  A JavaScript string is a sequence of code units; it is modelled as a \<open>string\<close>,
  one \<open>char\<close> standing for one code unit. The command only compares code units
  with each other and with the space, so their width plays no part. Offsets and columns
  are JavaScript numbers that only ever hold integers here, so they are \<open>int\<close>:
  the sentinel \<open>-1\<close> and the negative search positions of the locator are
  ordinary values.
\<close>

text \<open>
  \<open>s.charCodeAt(pos)\<close>: the code unit at \<open>pos\<close>, or NaN when \<open>pos\<close> is
  out of range. \<open>None\<close> stands for NaN.
\<close>

definition charCodeAt :: "string \<Rightarrow> int \<Rightarrow> char option" where
  "charCodeAt s pos =
     (if 0 \<le> pos \<and> pos < int (length s) then Some (s ! nat pos) else None)"

text \<open>
  \<open>a !== b\<close> and \<open>a === b\<close> on the results of \<open>charCodeAt\<close>: NaN is
  different from everything, itself included.
\<close>

definition strictNotEquals :: "char option \<Rightarrow> char option \<Rightarrow> bool" where
  "strictNotEquals a b =
     (case a of None \<Rightarrow> True
      | Some x \<Rightarrow> (case b of None \<Rightarrow> True | Some y \<Rightarrow> x \<noteq> y))"

definition strictEquals :: "char option \<Rightarrow> char option \<Rightarrow> bool" where
  "strictEquals a b = (\<not> strictNotEquals a b)"

text \<open>\<open>CharCode.Space\<close> of \<open>vs/base/common/charCode\<close>: the code unit 32.\<close>

definition CharCode_Space :: "char option" where
  "CharCode_Space = Some (CHR '' '')"

text \<open>The needle occurs in \<open>s\<close> at offset \<open>k\<close>.\<close>

definition occursAt :: "string \<Rightarrow> string \<Rightarrow> nat \<Rightarrow> bool" where
  "occursAt s needle k =
     (k + length needle \<le> length s \<and> take (length needle) (drop k s) = needle)"

text \<open>
  \<open>s.indexOf(needle, position)\<close> (ECMAScript): the search starts at
  \<open>min(max(position, 0), len)\<close> and returns the smallest offset not below it where
  the needle occurs, or \<open>-1\<close>.
\<close>

definition indexOf :: "string \<Rightarrow> string \<Rightarrow> int \<Rightarrow> int" where
  "indexOf s needle position =
     (let start = nat (min (max position 0) (int (length s)))
      in case List.find (occursAt s needle) [start ..< Suc (length s)] of
           None \<Rightarrow> - 1
         | Some k \<Rightarrow> int k)"

text \<open>
  \<open>s.lastIndexOf(needle, position)\<close> (ECMAScript): with
  \<open>start = min(max(position, 0), len)\<close>, the largest offset not above \<open>start\<close>
  where the needle occurs, or \<open>-1\<close>.
\<close>

definition lastIndexOf :: "string \<Rightarrow> string \<Rightarrow> int \<Rightarrow> int" where
  "lastIndexOf s needle position =
     (let start = nat (min (max position 0) (int (length s)))
      in case List.find (occursAt s needle) (rev [0 ..< Suc start]) of
           None \<Rightarrow> - 1
         | Some k \<Rightarrow> int k)"

section \<open>The substring-at-offset matcher\<close>

text \<open>
  The body of the \<open>for\<close> loop of \<open>_haystackHasNeedleAtOffset\<close>, with the loop
  counter \<open>i\<close> as an argument.
\<close>

function haystackLoop :: "string \<Rightarrow> string \<Rightarrow> int \<Rightarrow> nat \<Rightarrow> bool" where
  "haystackLoop haystack needle offset i =
     (if i < length needle then
        (if strictNotEquals (charCodeAt haystack (offset + int i)) (charCodeAt needle (int i))
         then False
         else haystackLoop haystack needle offset (Suc i))
      else True)"
  by pat_completeness auto
termination
  by (relation "measure (\<lambda>(haystack, needle, offset, i). length needle - i)") auto

declare haystackLoop.simps [simp del]

definition haystackHasNeedleAtOffset :: "string \<Rightarrow> string \<Rightarrow> int \<Rightarrow> bool" where
  "haystackHasNeedleAtOffset haystack needle offset =
     (if offset < 0 then False
      else
        let needleLength = int (length needle);
            haystackLength = int (length haystack)
        in if offset + needleLength > haystackLength then False
           else haystackLoop haystack needle offset 0)"

section \<open>Positions, ranges and edit operations\<close>

text \<open>
  Modelled from the spec: the class \<open>Position\<close> of \<open>vs/editor/common/core/position\<close>
  is not among the sources. Section 3: a position is a (line, column) pair, 1-based.
\<close>

record Position =
  lineNumber :: int
  column :: int

definition newPosition :: "int \<Rightarrow> int \<Rightarrow> Position" where
  "newPosition ln col = \<lparr>lineNumber = ln, column = col\<rparr>"

text \<open>
  Modelled from the spec: the class \<open>Range\<close> of \<open>vs/editor/common/core/range\<close> is not
  among the sources. Section 3: a range is (startLine, startColumn, endLine, endColumn),
  1-based, and is collapsed (empty) when its start equals its end. The constructor keeps the
  four numbers it is given.
\<close>

record Range =
  startLineNumber :: int
  startColumn :: int
  endLineNumber :: int
  endColumn :: int

definition newRange :: "int \<Rightarrow> int \<Rightarrow> int \<Rightarrow> int \<Rightarrow> Range" where
  "newRange sl sc el ec =
     \<lparr>startLineNumber = sl, startColumn = sc, endLineNumber = el, endColumn = ec\<rparr>"

definition Range_isEmpty :: "Range \<Rightarrow> bool" where
  "Range_isEmpty r =
     (startLineNumber r = endLineNumber r \<and> startColumn r = endColumn r)"

text \<open>
  Modelled from the spec: the class \<open>Selection\<close> of \<open>vs/editor/common/core/selection\<close>
  is not among the sources. Section 3: a selection is a range with a notion of anchor and
  active end; the command reads it only as a range, and builds one from four numbers.
\<close>

type_synonym Selection = Range

definition newSelection :: "int \<Rightarrow> int \<Rightarrow> int \<Rightarrow> int \<Rightarrow> Selection" where
  "newSelection sl sc el ec = newRange sl sc el ec"

text \<open>
  Modelled from the spec: \<open>IIdentifiedSingleEditOperation\<close> and the class
  \<open>EditOperation\<close> of \<open>vs/editor/common/core/editOperation\<close> are not among the
  sources. Section 3: an edit operation is a range to replace and a replacement string;
  the empty string deletes, and an empty range inserts.
\<close>

record IIdentifiedSingleEditOperation =
  range_op :: Range
  text_op :: string

definition EditOperation_insert :: "Position \<Rightarrow> string \<Rightarrow> IIdentifiedSingleEditOperation" where
  "EditOperation_insert position txt =
     \<lparr>range_op = newRange (lineNumber position) (column position)
                          (lineNumber position) (column position),
      text_op = txt\<rparr>"

definition EditOperation_delete :: "Range \<Rightarrow> IIdentifiedSingleEditOperation" where
  "EditOperation_delete r = \<lparr>range_op = r, text_op = []\<rparr>"

definition EditOperation_replace :: "Range \<Rightarrow> string \<Rightarrow> IIdentifiedSingleEditOperation" where
  "EditOperation_replace r txt = \<lparr>range_op = r, text_op = txt\<rparr>"

section \<open>The interfaces the command consumes\<close>

text \<open>
  Modelled from the spec: \<open>ICommentsConfiguration\<close> of the language configuration
  registry is not among the sources. Section 3: a pair of strings (startToken, endToken),
  either of which may be absent.
\<close>

record ICommentsConfiguration =
  blockCommentStartToken :: "string option"
  blockCommentEndToken :: "string option"

text \<open>
  Modelled from the spec: \<open>ITokenizedModel\<close> of \<open>vs/editor/common/editorCommon\<close> is
  not among the sources. Section 6: line text lookup by line number and language identifier
  lookup at a position; \<open>tokenizeIfCheap\<close> is a hint that changes nothing the command
  reads, so the model has no field for it.
\<close>

record 'l ITokenizedModel =
  getLineContent :: "int \<Rightarrow> string"
  getLanguageIdAtPosition :: "int \<Rightarrow> int \<Rightarrow> 'l"

text \<open>
  Modelled from the spec: \<open>IEditOperationBuilder\<close> of \<open>vs/editor/common/editorCommon\<close>
  is not among the sources. Section 6: a sink accepting an ordered sequence of
  (range, replacement text) pairs; it is the list of the pairs submitted so far.
\<close>

type_synonym IEditOperationBuilder = "(Range \<times> string) list"

definition addTrackedEditOperation ::
  "IEditOperationBuilder \<Rightarrow> Range \<Rightarrow> string \<Rightarrow> IEditOperationBuilder" where
  "addTrackedEditOperation builder r txt = builder @ [(r, txt)]"

text \<open>
  \<open>!t\<close> on a string that may be absent: true for \<open>null\<close>, \<open>undefined\<close> and the
  empty string.
\<close>

definition falsy :: "string option \<Rightarrow> bool" where
  "falsy t = (case t of None \<Rightarrow> True | Some s \<Rightarrow> s = [])"

text \<open>Reading a property of \<open>undefined\<close> throws a \<open>TypeError\<close>.\<close>

datatype error = TypeError

section \<open>The block comment command\<close>

text \<open>The fields \<open>_selection\<close> and \<open>_usedEndToken\<close> and the constructor.\<close>

record BlockCommentCommand =
  selection :: Selection
  usedEndToken :: "string option"

definition newBlockCommentCommand :: "Selection \<Rightarrow> BlockCommentCommand" where
  "newBlockCommentCommand sel = \<lparr>selection = sel, usedEndToken = None\<rparr>"

definition createRemoveBlockCommentOperations ::
  "Range \<Rightarrow> string \<Rightarrow> string \<Rightarrow> IIdentifiedSingleEditOperation list" where
  "createRemoveBlockCommentOperations r startToken endToken =
     (if \<not> Range_isEmpty r then
        [EditOperation_delete (newRange
           (startLineNumber r) (startColumn r - int (length startToken))
           (startLineNumber r) (startColumn r)),
         EditOperation_delete (newRange
           (endLineNumber r) (endColumn r)
           (endLineNumber r) (endColumn r + int (length endToken)))]
      else
        [EditOperation_delete (newRange
           (startLineNumber r) (startColumn r - int (length startToken))
           (endLineNumber r) (endColumn r + int (length endToken)))])"

definition createAddBlockCommentOperations ::
  "Range \<Rightarrow> string \<Rightarrow> string \<Rightarrow> IIdentifiedSingleEditOperation list" where
  "createAddBlockCommentOperations r startToken endToken =
     (if \<not> Range_isEmpty r then
        [EditOperation_insert (newPosition (startLineNumber r) (startColumn r))
           (startToken @ '' ''),
         EditOperation_insert (newPosition (endLineNumber r) (endColumn r))
           ('' '' @ endToken)]
      else
        [EditOperation_replace (newRange
           (startLineNumber r) (startColumn r)
           (endLineNumber r) (endColumn r)) (startToken @ ''  '' @ endToken)])"

text \<open>
  The final loop of \<open>_createOperationsForBlockComment\<close>: every operation is submitted
  to the builder, in order.
\<close>

definition submitAll ::
  "IIdentifiedSingleEditOperation list \<Rightarrow> IEditOperationBuilder \<Rightarrow> IEditOperationBuilder" where
  "submitAll ops builder =
     fold (\<lambda>op b. addTrackedEditOperation b (range_op op) (text_op op)) ops builder"

text \<open>
  The three searches of \<open>_createOperationsForBlockComment\<close>, named after the
  variables that hold their results: the last start token of the start line at or before
  offset \<open>startColumn - 1 + startToken.length\<close>, the first end token of the end line
  at or after offset \<open>endColumn - 1 - endToken.length\<close>, and the last end token of the
  start line at or before offset \<open>startColumn - 1 + endToken.length\<close>.
\<close>

definition startTokenIndexOf :: "'l ITokenizedModel \<Rightarrow> Range \<Rightarrow> string \<Rightarrow> int" where
  "startTokenIndexOf model sel startToken =
     lastIndexOf (getLineContent model (startLineNumber sel)) startToken
       (startColumn sel - 1 + int (length startToken))"

definition endTokenIndexOf :: "'l ITokenizedModel \<Rightarrow> Range \<Rightarrow> string \<Rightarrow> int" where
  "endTokenIndexOf model sel endToken =
     indexOf (getLineContent model (endLineNumber sel)) endToken
       (endColumn sel - 1 - int (length endToken))"

definition endTokenBeforeCursorIndexOf :: "'l ITokenizedModel \<Rightarrow> Range \<Rightarrow> string \<Rightarrow> int" where
  "endTokenBeforeCursorIndexOf model sel endToken =
     lastIndexOf (getLineContent model (startLineNumber sel)) endToken
       (startColumn sel - 1 + int (length endToken))"

text \<open>
  \<open>_createOperationsForBlockComment\<close>. The command and the builder are passed in and
  returned updated. A token that is absent from the configuration makes \<open>.length\<close>
  throw.
\<close>

definition createOperationsForBlockComment ::
  "BlockCommentCommand \<Rightarrow> Range \<Rightarrow> ICommentsConfiguration \<Rightarrow> 'l ITokenizedModel \<Rightarrow>
   IEditOperationBuilder \<Rightarrow> error + (BlockCommentCommand \<times> IEditOperationBuilder)" where
  "createOperationsForBlockComment cmd sel config model builder =
     (case blockCommentStartToken config of
        None \<Rightarrow> Inl TypeError
      | Some startToken \<Rightarrow>
     (case blockCommentEndToken config of
        None \<Rightarrow> Inl TypeError
      | Some endToken \<Rightarrow>
        let startLn = startLineNumber sel;
            endLn = endLineNumber sel;
            startTokenIndex = startTokenIndexOf model sel startToken;
            endTokenIndex = endTokenIndexOf model sel endToken;
            (cmd', ops) =
              (if startTokenIndex \<noteq> - 1 \<and> endTokenIndex \<noteq> - 1 then
                 let endTokenBeforeCursorIndex = endTokenBeforeCursorIndexOf model sel endToken
                 in if endTokenBeforeCursorIndex > startTokenIndex + int (length startToken) - 1
                    then
                      let ops = createAddBlockCommentOperations sel startToken endToken
                      in (cmd\<lparr>usedEndToken := (if length ops = 1 then Some endToken else None)\<rparr>,
                          ops)
                    else
                      let startToken' =
                            (if strictEquals
                                  (charCodeAt (getLineContent model startLn)
                                     (startTokenIndex + int (length startToken)))
                                  CharCode_Space
                             then startToken @ '' '' else startToken);
                          (endToken', endTokenIndex') =
                            (if strictEquals
                                  (charCodeAt (getLineContent model endLn) (endTokenIndex - 1))
                                  CharCode_Space
                             then ('' '' @ endToken, endTokenIndex - 1)
                             else (endToken, endTokenIndex))
                      in (cmd,
                          createRemoveBlockCommentOperations
                            (newRange startLn (startTokenIndex + 1 + int (length startToken'))
                               endLn (endTokenIndex' + 1))
                            startToken' endToken')
               else
                 let ops = createAddBlockCommentOperations sel startToken endToken
                 in (cmd\<lparr>usedEndToken := (if length ops = 1 then Some endToken else None)\<rparr>,
                     ops))
        in Inr (cmd', submitAll ops builder)))"

text \<open>
  \<open>getEditOperations\<close>. The language configuration registry is global state of the
  editor; its lookup \<open>getComments\<close> is a parameter.
\<close>

definition getEditOperations ::
  "('l \<Rightarrow> ICommentsConfiguration option) \<Rightarrow> BlockCommentCommand \<Rightarrow> 'l ITokenizedModel \<Rightarrow>
   IEditOperationBuilder \<Rightarrow> error + (BlockCommentCommand \<times> IEditOperationBuilder)" where
  "getEditOperations getComments cmd model builder =
     (let startLn = startLineNumber (selection cmd);
          startCol = startColumn (selection cmd);
          languageId = getLanguageIdAtPosition model startLn startCol
      in case getComments languageId of
           None \<Rightarrow> Inr (cmd, builder)
         | Some config \<Rightarrow>
             if falsy (blockCommentStartToken config) \<or> falsy (blockCommentEndToken config)
             then Inr (cmd, builder)
             else createOperationsForBlockComment cmd (selection cmd) config model builder)"

text \<open>
  \<open>computeCursorState\<close>. The helper is the list \<open>getInverseEditOperations()\<close>
  returns. With no element, \<open>inverseEditOperations[0].range\<close> throws.
\<close>

definition computeCursorState ::
  "BlockCommentCommand \<Rightarrow> IIdentifiedSingleEditOperation list \<Rightarrow> error + Selection" where
  "computeCursorState cmd inverseEditOperations =
     (if length inverseEditOperations = 2 then
        let startTokenEditOperation = inverseEditOperations ! 0;
            endTokenEditOperation = inverseEditOperations ! 1
        in Inr (newSelection
             (endLineNumber (range_op startTokenEditOperation))
             (endColumn (range_op startTokenEditOperation))
             (startLineNumber (range_op endTokenEditOperation))
             (startColumn (range_op endTokenEditOperation)))
      else
        (case inverseEditOperations of
           [] \<Rightarrow> Inl TypeError
         | first # _ \<Rightarrow>
             let srcRange = range_op first;
                 deltaColumn =
                   (case usedEndToken cmd of
                      None \<Rightarrow> 0
                    | Some t \<Rightarrow> if t = [] then 0 else - int (length t) - 1)
             in Inr (newSelection
                  (endLineNumber srcRange) (endColumn srcRange + deltaColumn)
                  (endLineNumber srcRange) (endColumn srcRange + deltaColumn))))"

section \<open>What a search is to find\<close>

text \<open>
  The properties the three searches are measured against, stated on the line itself and
  not on the search functions. A token stands at offset \<open>k\<close> of a line when the
  line is some \<open>k\<close> code units, then the token, then the rest.
\<close>

definition tokenAt :: "string \<Rightarrow> string \<Rightarrow> nat \<Rightarrow> bool" where
  "tokenAt line token k =
     (\<exists>before after. line = before @ token @ after \<and> length before = k)"

text \<open>
  \<open>r\<close> is the last occurrence of the token at or before offset \<open>bound\<close>: the
  token stands at \<open>r\<close>, \<open>r\<close> is not after \<open>bound\<close>, and the token
  stands at no offset after \<open>r\<close> up to \<open>bound\<close>; or \<open>r\<close> is the
  sentinel \<open>-1\<close> and the token stands at no offset up to \<open>bound\<close>.
\<close>

definition isLastOccurrenceAtOrBefore :: "string \<Rightarrow> string \<Rightarrow> int \<Rightarrow> int \<Rightarrow> bool" where
  "isLastOccurrenceAtOrBefore line token bound r =
     (if r = - 1 then (\<forall>k. int k \<le> bound \<longrightarrow> \<not> tokenAt line token k)
      else 0 \<le> r \<and> r \<le> bound \<and> tokenAt line token (nat r) \<and>
           (\<forall>k. r < int k \<and> int k \<le> bound \<longrightarrow> \<not> tokenAt line token k))"

text \<open>
  \<open>r\<close> is the first occurrence of the token at or after offset \<open>bound\<close>, or
  the sentinel \<open>-1\<close> when the token stands at no offset from \<open>bound\<close> on.
\<close>

definition isFirstOccurrenceAtOrAfter :: "string \<Rightarrow> string \<Rightarrow> int \<Rightarrow> int \<Rightarrow> bool" where
  "isFirstOccurrenceAtOrAfter line token bound r =
     (if r = - 1 then (\<forall>k. bound \<le> int k \<longrightarrow> \<not> tokenAt line token k)
      else 0 \<le> r \<and> bound \<le> r \<and> tokenAt line token (nat r) \<and>
           (\<forall>k. bound \<le> int k \<and> int k < r \<longrightarrow> \<not> tokenAt line token k))"

section \<open>The editor's side: documents, applying edits, inverse ranges\<close>

text \<open>
  Modelled from the spec: the text buffer is not among the sources. Section 6: line text
  lookup by line number on the current snapshot. A document is the list of its lines, line
  1 first; a line number outside the document has no text.
\<close>

definition lineOf :: "string list \<Rightarrow> int \<Rightarrow> string" where
  "lineOf doc ln =
     (if 1 \<le> ln \<and> ln \<le> int (length doc) then doc ! nat (ln - 1) else [])"

definition textModel :: "string list \<Rightarrow> unit ITokenizedModel" where
  "textModel doc = \<lparr>getLineContent = lineOf doc, getLanguageIdAtPosition = (\<lambda>ln col. ())\<rparr>"

text \<open>
  Modelled from the spec: the harness that applies the submitted operations is not among
  the sources. Sections 3 and 6: an operation replaces the text of its range by its
  replacement string. Columns are 1-based, so the range keeps the first
  \<open>startColumn - 1\<close> code units of its first line and everything from offset
  \<open>endColumn - 1\<close> of its last line. A replacement string is taken to hold no line
  break, as comment tokens do not, so what replaces the range is one line.
\<close>

definition applyEdit :: "Range \<times> string \<Rightarrow> string list \<Rightarrow> string list" where
  "applyEdit e doc =
     (case e of (r, txt) \<Rightarrow>
        take (nat (startLineNumber r - 1)) doc @
        [take (nat (startColumn r - 1)) (lineOf doc (startLineNumber r)) @ txt @
         drop (nat (endColumn r - 1)) (lineOf doc (endLineNumber r))] @
        drop (nat (endLineNumber r)) doc)"

text \<open>
  Modelled from the spec: every range of a batch refers to the text before the batch.
  The operations of this command are submitted in document order and do not overlap, so
  applying them from the last to the first leaves the coordinates of the earlier ones
  valid.
\<close>

definition applyEdits :: "IEditOperationBuilder \<Rightarrow> string list \<Rightarrow> string list" where
  "applyEdits builder doc = foldr applyEdit builder doc"

text \<open>
  Modelled from the spec: the post-application range provider is not among the sources.
  Section 6 and the glossary: in submission order, the range each operation's replacement
  text occupies after the whole batch is applied. For operations on single lines in
  document order, an operation's replacement starts at its start column moved by the growth
  of the earlier operations on the same line (\<open>shift\<close>), and is as long as its text.
  The inverse operation's text is the text that was replaced.
\<close>

fun inverseFrom ::
  "(int \<Rightarrow> int) \<Rightarrow> IEditOperationBuilder \<Rightarrow> string list \<Rightarrow>
   IIdentifiedSingleEditOperation list" where
  "inverseFrom shift [] doc = []"
| "inverseFrom shift ((r, txt) # rest) doc =
     (let ln = startLineNumber r;
          col = startColumn r + shift ln;
          replaced = nat (endColumn r - startColumn r)
      in \<lparr>range_op = newRange ln col ln (col + int (length txt)),
          text_op = take replaced (drop (nat (startColumn r - 1)) (lineOf doc ln))\<rparr>
         # inverseFrom (shift(ln := shift ln + int (length txt) - int replaced)) rest doc)"

definition getInverseEditOperations ::
  "IEditOperationBuilder \<Rightarrow> string list \<Rightarrow> IIdentifiedSingleEditOperation list" where
  "getInverseEditOperations builder doc = inverseFrom (\<lambda>ln. 0) builder doc"

text \<open>
  Modelled from the spec: reading the text of a range is the buffer's work and is not
  among the sources. Section 3: columns are 1-based and a range is half-open in its
  columns. The text of a range is given line by line: on one line, the code units from
  the start column up to the end column; over several lines, the rest of the first line,
  the lines in between, and the last line up to the end column.
\<close>

definition textInRange :: "string list \<Rightarrow> Range \<Rightarrow> string list" where
  "textInRange doc r =
     (if startLineNumber r = endLineNumber r
      then [take (nat (endColumn r - startColumn r))
              (drop (nat (startColumn r - 1)) (lineOf doc (startLineNumber r)))]
      else drop (nat (startColumn r - 1)) (lineOf doc (startLineNumber r)) #
           take (nat (endLineNumber r - startLineNumber r - 1))
             (drop (nat (startLineNumber r)) doc) @
           [take (nat (endColumn r - 1)) (lineOf doc (endLineNumber r))])"

text \<open>
  A selection lies in a document: both ends are positions of the document and the start
  is not after the end.
\<close>

definition validSelection :: "string list \<Rightarrow> Range \<Rightarrow> bool" where
  "validSelection doc sel =
     (1 \<le> startLineNumber sel \<and> startLineNumber sel \<le> endLineNumber sel \<and>
      endLineNumber sel \<le> int (length doc) \<and>
      1 \<le> startColumn sel \<and>
      startColumn sel \<le> int (length (lineOf doc (startLineNumber sel))) + 1 \<and>
      1 \<le> endColumn sel \<and>
      endColumn sel \<le> int (length (lineOf doc (endLineNumber sel))) + 1 \<and>
      (startLineNumber sel < endLineNumber sel \<or> startColumn sel \<le> endColumn sel))"

text \<open>
  One run of the command on a document: the edit phase with the given configuration, the
  application of the submitted operations, and the cursor phase on their inverse ranges.
\<close>

definition runCommand ::
  "ICommentsConfiguration \<Rightarrow> Selection \<Rightarrow> string list \<Rightarrow> error + (string list \<times> Selection)" where
  "runCommand config sel doc =
     (case createOperationsForBlockComment (newBlockCommentCommand sel) sel config
             (textModel doc) [] of
        Inl e \<Rightarrow> Inl e
      | Inr (cmd, builder) \<Rightarrow>
          (case computeCursorState cmd (getInverseEditOperations builder doc) of
             Inl e \<Rightarrow> Inl e
           | Inr sel' \<Rightarrow> Inr (applyEdits builder doc, sel')))"

text \<open>
  The add-plan of a selection applied to a document, with the selection the cursor phase
  computes for it.
\<close>

definition applyAddPlan ::
  "string \<Rightarrow> string \<Rightarrow> Selection \<Rightarrow> string list \<Rightarrow> error + (string list \<times> Selection)" where
  "applyAddPlan startToken endToken sel doc =
     (let ops = createAddBlockCommentOperations sel startToken endToken;
          cmd = (newBlockCommentCommand sel)
                  \<lparr>usedEndToken := (if length ops = 1 then Some endToken else None)\<rparr>;
          builder = submitAll ops []
      in case computeCursorState cmd (getInverseEditOperations builder doc) of
           Inl e \<Rightarrow> Inl e
         | Inr sel' \<Rightarrow> Inr (applyEdits builder doc, sel'))"

text \<open>
  The round trip: the add-plan is applied, then the command runs again on the result with
  the selection the cursor phase left.
\<close>

definition addThenToggle ::
  "string \<Rightarrow> string \<Rightarrow> Selection \<Rightarrow> string list \<Rightarrow> error + (string list \<times> Selection)" where
  "addThenToggle startToken endToken sel doc =
     (case applyAddPlan startToken endToken sel doc of
        Inl e \<Rightarrow> Inl e
      | Inr (doc', sel') \<Rightarrow>
          runCommand
            \<lparr>blockCommentStartToken = Some startToken, blockCommentEndToken = Some endToken\<rparr>
            sel' doc')"

section \<open>The matcher's contract\<close>

lemma haystackLoop_iff:
  assumes "0 \<le> offset" and "offset + int (length needle) \<le> int (length haystack)"
  shows "haystackLoop haystack needle offset i =
           (\<forall>j. i \<le> j \<and> j < length needle \<longrightarrow> haystack ! (nat offset + j) = needle ! j)"
  using assms
proof (induction haystack needle offset i rule: haystackLoop.induct)
  case (1 haystack needle offset i)
  show ?case
  proof (cases "i < length needle")
    case False
    then have "haystackLoop haystack needle offset i = True"
      by (subst haystackLoop.simps) simp
    moreover have "\<forall>j. i \<le> j \<and> j < length needle \<longrightarrow>
                     haystack ! (nat offset + j) = needle ! j"
      using False by auto
    ultimately show ?thesis by blast
  next
    case True
    have inh: "offset + int i < int (length haystack)"
      using True "1.prems" by linarith
    have idx: "nat (offset + int i) = nat offset + i"
      using "1.prems"(1) by (simp add: nat_add_distrib)
    have here: "strictNotEquals (charCodeAt haystack (offset + int i)) (charCodeAt needle (int i))
                  = (haystack ! (nat offset + i) \<noteq> needle ! i)"
      using True inh "1.prems"(1) idx by (simp add: strictNotEquals_def charCodeAt_def)
    show ?thesis
    proof (cases "haystack ! (nat offset + i) = needle ! i")
      case False
      then show ?thesis
        using True here by (subst haystackLoop.simps) auto
    next
      case same: True
      have rest: "haystackLoop haystack needle offset (Suc i) =
                    (\<forall>j. Suc i \<le> j \<and> j < length needle \<longrightarrow>
                           haystack ! (nat offset + j) = needle ! j)"
        using "1.IH" True here same "1.prems" by simp
      have split: "(\<forall>j. i \<le> j \<and> j < length needle \<longrightarrow> haystack ! (nat offset + j) = needle ! j)
                     = (\<forall>j. Suc i \<le> j \<and> j < length needle \<longrightarrow>
                             haystack ! (nat offset + j) = needle ! j)"
        using same by (metis Suc_leI le_neq_implies_less Suc_leD)
      show ?thesis
        using True here same rest split by (subst haystackLoop.simps) simp
    qed
  qed
qed

text \<open>
  C9. The matcher is a total function (it never fails). It returns false for a negative
  offset and when \<open>offset + len(needle) > len(haystack)\<close>; otherwise it returns true
  exactly when every code unit of the needle equals the code unit of the haystack at the
  corresponding position.
\<close>

theorem haystackHasNeedleAtOffset_contract:
  "(offset < 0 \<longrightarrow> haystackHasNeedleAtOffset haystack needle offset = False) \<and>
   (offset + int (length needle) > int (length haystack) \<longrightarrow>
      haystackHasNeedleAtOffset haystack needle offset = False) \<and>
   (0 \<le> offset \<and> offset + int (length needle) \<le> int (length haystack) \<longrightarrow>
      haystackHasNeedleAtOffset haystack needle offset =
        (\<forall>i < length needle.
           charCodeAt haystack (offset + int i) = charCodeAt needle (int i)))"
proof (intro conjI impI)
  assume "offset < 0"
  then show "haystackHasNeedleAtOffset haystack needle offset = False"
    by (simp add: haystackHasNeedleAtOffset_def)
next
  assume "offset + int (length needle) > int (length haystack)"
  then show "haystackHasNeedleAtOffset haystack needle offset = False"
    by (simp add: haystackHasNeedleAtOffset_def Let_def)
next
  assume b: "0 \<le> offset \<and> offset + int (length needle) \<le> int (length haystack)"
  have codes: "charCodeAt haystack (offset + int i) = charCodeAt needle (int i)
                 \<longleftrightarrow> haystack ! (nat offset + i) = needle ! i"
    if "i < length needle" for i
  proof -
    have "offset + int i < int (length haystack)" using that b by linarith
    moreover have "nat (offset + int i) = nat offset + i"
      using b by (simp add: nat_add_distrib)
    ultimately show ?thesis
      using that b by (simp add: charCodeAt_def)
  qed
  have "haystackHasNeedleAtOffset haystack needle offset = haystackLoop haystack needle offset 0"
    using b by (simp add: haystackHasNeedleAtOffset_def Let_def)
  also have "\<dots> = (\<forall>j. 0 \<le> j \<and> j < length needle \<longrightarrow> haystack ! (nat offset + j) = needle ! j)"
    using b by (intro haystackLoop_iff) auto
  also have "\<dots> = (\<forall>i < length needle.
                     charCodeAt haystack (offset + int i) = charCodeAt needle (int i))"
    using codes by auto
  finally show "haystackHasNeedleAtOffset haystack needle offset =
        (\<forall>i < length needle.
           charCodeAt haystack (offset + int i) = charCodeAt needle (int i))" .
qed

theorem haystackHasNeedleAtOffset_contract_witness:
  "haystackHasNeedleAtOffset ''abcdef'' ''cd'' 2 \<and>
   \<not> haystackHasNeedleAtOffset ''abcdef'' ''cx'' 2 \<and>
   \<not> haystackHasNeedleAtOffset ''abcdef'' ''cd'' (- 1) \<and>
   \<not> haystackHasNeedleAtOffset ''abcdef'' ''ef'' 5"
proof -
  have m: "\<forall>i < length ''cd''. charCodeAt ''abcdef'' (2 + int i) = charCodeAt ''cd'' (int i)"
    by (auto simp: charCodeAt_def less_Suc_eq)
  have n: "\<not> (\<forall>i < length ''cx''. charCodeAt ''abcdef'' (2 + int i) = charCodeAt ''cx'' (int i))"
    by (auto simp: charCodeAt_def intro!: exI [of _ 1])
  show ?thesis
    using haystackHasNeedleAtOffset_contract
            [where haystack = "''abcdef''" and needle = "''cd''" and offset = 2]
      haystackHasNeedleAtOffset_contract
            [where haystack = "''abcdef''" and needle = "''cx''" and offset = 2]
      haystackHasNeedleAtOffset_contract
            [where haystack = "''abcdef''" and needle = "''cd''" and offset = "- 1"]
      haystackHasNeedleAtOffset_contract
            [where haystack = "''abcdef''" and needle = "''ef''" and offset = 5]
      m n
    by simp
qed

section \<open>Facts about the plan builders\<close>

lemma submitAll_conv:
  "submitAll ops builder = builder @ map (\<lambda>op. (range_op op, text_op op)) ops"
proof -
  have "fold (\<lambda>op b. addTrackedEditOperation b (range_op op) (text_op op)) ops b
          = b @ map (\<lambda>op. (range_op op, text_op op)) ops" for b
    by (induction ops arbitrary: b) (simp_all add: addTrackedEditOperation_def)
  then show ?thesis by (simp add: submitAll_def)
qed

lemma add_ops_expand:
  "createAddBlockCommentOperations r st et =
     (if Range_isEmpty r
      then [\<lparr>range_op = r, text_op = st @ ''  '' @ et\<rparr>]
      else [\<lparr>range_op = newRange (startLineNumber r) (startColumn r)
                                 (startLineNumber r) (startColumn r),
             text_op = st @ '' ''\<rparr>,
            \<lparr>range_op = newRange (endLineNumber r) (endColumn r)
                                 (endLineNumber r) (endColumn r),
             text_op = '' '' @ et\<rparr>])"
  by (simp add: createAddBlockCommentOperations_def EditOperation_insert_def
        EditOperation_replace_def newPosition_def newRange_def)

lemma remove_ops_expand:
  "createRemoveBlockCommentOperations r st et =
     (if Range_isEmpty r
      then [\<lparr>range_op = newRange (startLineNumber r) (startColumn r - int (length st))
                                 (endLineNumber r) (endColumn r + int (length et)),
             text_op = []\<rparr>]
      else [\<lparr>range_op = newRange (startLineNumber r) (startColumn r - int (length st))
                                 (startLineNumber r) (startColumn r),
             text_op = []\<rparr>,
            \<lparr>range_op = newRange (endLineNumber r) (endColumn r)
                                 (endLineNumber r) (endColumn r + int (length et)),
             text_op = []\<rparr>])"
  by (simp add: createRemoveBlockCommentOperations_def EditOperation_delete_def)

lemma add_ops_length:
  "(length (createAddBlockCommentOperations r st et) = 1) = Range_isEmpty r"
  by (simp add: add_ops_expand)

lemma submit_add_neq_remove:
  "submitAll (createAddBlockCommentOperations r st et) builder
     \<noteq> submitAll (createRemoveBlockCommentOperations r' st' et') builder"
  by (simp add: submitAll_conv add_ops_expand remove_ops_expand)

section \<open>The branches of the edit phase\<close>

lemma createOperations_add_branch:
  assumes "blockCommentStartToken config = Some st"
    and "blockCommentEndToken config = Some et"
    and "startTokenIndexOf model sel st = - 1 \<or> endTokenIndexOf model sel et = - 1 \<or>
         endTokenBeforeCursorIndexOf model sel et
           > startTokenIndexOf model sel st + int (length st) - 1"
  shows "createOperationsForBlockComment cmd sel config model builder =
           Inr (cmd\<lparr>usedEndToken := (if Range_isEmpty sel then Some et else None)\<rparr>,
                submitAll (createAddBlockCommentOperations sel st et) builder)"
proof (cases "startTokenIndexOf model sel st \<noteq> - 1 \<and> endTokenIndexOf model sel et \<noteq> - 1")
  case True
  then have "endTokenBeforeCursorIndexOf model sel et
               > startTokenIndexOf model sel st + int (length st) - 1"
    using assms(3) by blast
  then show ?thesis
    using assms(1,2) True
    by (simp add: createOperationsForBlockComment_def Let_def add_ops_length del: One_nat_def)
next
  case False
  then have c: "(startTokenIndexOf model sel st \<noteq> - 1 \<and> endTokenIndexOf model sel et \<noteq> - 1)
                  = False"
    by simp
  show ?thesis
    using assms(1,2)
    by (simp add: createOperationsForBlockComment_def Let_def add_ops_length c
          del: One_nat_def)
qed

lemma createOperations_remove_branch:
  assumes "blockCommentStartToken config = Some st"
    and "blockCommentEndToken config = Some et"
    and "startTokenIndexOf model sel st \<noteq> - 1"
    and "endTokenIndexOf model sel et \<noteq> - 1"
    and "\<not> endTokenBeforeCursorIndexOf model sel et
           > startTokenIndexOf model sel st + int (length st) - 1"
  shows "createOperationsForBlockComment cmd sel config model builder =
           Inr (cmd,
             submitAll
               (createRemoveBlockCommentOperations
                  (newRange (startLineNumber sel)
                     (startTokenIndexOf model sel st + 1 +
                        int (length
                          (if strictEquals
                                (charCodeAt (getLineContent model (startLineNumber sel))
                                   (startTokenIndexOf model sel st + int (length st)))
                                CharCode_Space
                           then st @ '' '' else st)))
                     (endLineNumber sel)
                     ((if strictEquals
                            (charCodeAt (getLineContent model (endLineNumber sel))
                               (endTokenIndexOf model sel et - 1))
                            CharCode_Space
                       then endTokenIndexOf model sel et - 1
                       else endTokenIndexOf model sel et) + 1))
                  (if strictEquals
                        (charCodeAt (getLineContent model (startLineNumber sel))
                           (startTokenIndexOf model sel st + int (length st)))
                        CharCode_Space
                   then st @ '' '' else st)
                  (if strictEquals
                        (charCodeAt (getLineContent model (endLineNumber sel))
                           (endTokenIndexOf model sel et - 1))
                        CharCode_Space
                   then '' '' @ et else et))
               builder)"
proof (cases "strictEquals
                 (charCodeAt (getLineContent model (endLineNumber sel))
                    (endTokenIndexOf model sel et - 1))
                 CharCode_Space")
  case True
  then show ?thesis
    using assms by (simp add: createOperationsForBlockComment_def Let_def)
next
  case False
  then show ?thesis
    using assms by (simp add: createOperationsForBlockComment_def Let_def)
qed

lemma strictEquals_Space:
  "strictEquals c CharCode_Space = (c = Some (CHR '' ''))"
  by (cases c) (auto simp: strictEquals_def strictNotEquals_def CharCode_Space_def)

lemma remove_branch_submitted:
  assumes "blockCommentStartToken config = Some st"
    and "blockCommentEndToken config = Some et"
    and "startTokenIndexOf model sel st \<noteq> - 1"
    and "endTokenIndexOf model sel et \<noteq> - 1"
    and "\<not> endTokenBeforeCursorIndexOf model sel et
           > startTokenIndexOf model sel st + int (length st) - 1"
  shows
    "createOperationsForBlockComment cmd sel config model builder =
       Inr (cmd, builder @
         (let sti = startTokenIndexOf model sel st;
              eti = endTokenIndexOf model sel et;
              a = (if charCodeAt (getLineContent model (startLineNumber sel))
                        (sti + int (length st)) = Some (CHR '' '')
                   then 1 else 0);
              b = (if charCodeAt (getLineContent model (endLineNumber sel)) (eti - 1)
                        = Some (CHR '' '')
                   then 1 else 0)
          in if startLineNumber sel = endLineNumber sel \<and>
                sti + 1 + int (length st) + a = eti - b + 1
             then [(newRange (startLineNumber sel) (sti + 1)
                      (endLineNumber sel) (eti + 1 + int (length et)), [])]
             else [(newRange (startLineNumber sel) (sti + 1)
                      (startLineNumber sel) (sti + 1 + int (length st) + a), []),
                   (newRange (endLineNumber sel) (eti + 1 - b)
                      (endLineNumber sel) (eti + 1 + int (length et)), [])]))"
  unfolding createOperations_remove_branch [OF assms]
  by (cases "charCodeAt (getLineContent model (startLineNumber sel))
               (startTokenIndexOf model sel st + int (length st)) = Some (CHR '' '')";
      cases "charCodeAt (getLineContent model (endLineNumber sel))
               (endTokenIndexOf model sel et - 1) = Some (CHR '' '')")
     (auto simp add: submitAll_conv remove_ops_expand strictEquals_Space Let_def
        Range_isEmpty_def newRange_def)

lemma createOperations_cases:
  assumes "blockCommentStartToken config = Some st"
    and "blockCommentEndToken config = Some et"
    and "createOperationsForBlockComment cmd sel config model builder = Inr (cmd', builder')"
  shows "cmd' = cmd \<or> cmd' = cmd\<lparr>usedEndToken := None\<rparr> \<or>
         cmd' = cmd\<lparr>usedEndToken := Some et\<rparr>"
proof (cases "startTokenIndexOf model sel st \<noteq> - 1 \<and> endTokenIndexOf model sel et \<noteq> - 1 \<and>
              \<not> endTokenBeforeCursorIndexOf model sel et
                  > startTokenIndexOf model sel st + int (length st) - 1")
  case True
  then have "\<exists>b. createOperationsForBlockComment cmd sel config model builder = Inr (cmd, b)"
    using createOperations_remove_branch [OF assms(1,2), of model sel cmd builder]
    by blast
  then show ?thesis
    using assms(3) by auto
next
  case False
  then have "startTokenIndexOf model sel st = - 1 \<or> endTokenIndexOf model sel et = - 1 \<or>
         endTokenBeforeCursorIndexOf model sel et
           > startTokenIndexOf model sel st + int (length st) - 1"
    by blast
  then show ?thesis
    using createOperations_add_branch [OF assms(1,2), of model sel cmd builder] assms(3)
    by (simp split: if_splits)
qed

section \<open>The plans the builders return\<close>

text \<open>
  C4. For a non-collapsed range the add-plan builder returns exactly two operations: the
  insertion of the start token and a space at the range start, then the insertion of a
  space and the end token at the range end. For a collapsed range it returns exactly one
  operation, which replaces the empty range with the start token, two spaces and the end
  token. Whenever the command takes an add branch (a token is not located, or the lookback
  lands after the located start token), it submits exactly these operations and, for a
  collapsed selection, records the end token as the used end token; for a non-collapsed
  selection it records none.
\<close>

theorem createAddBlockCommentOperations_plan:
  "(\<not> Range_isEmpty r \<longrightarrow>
      createAddBlockCommentOperations r startToken endToken =
        [\<lparr>range_op = newRange (startLineNumber r) (startColumn r)
                              (startLineNumber r) (startColumn r),
          text_op = startToken @ '' ''\<rparr>,
         \<lparr>range_op = newRange (endLineNumber r) (endColumn r)
                              (endLineNumber r) (endColumn r),
          text_op = '' '' @ endToken\<rparr>]) \<and>
   (Range_isEmpty r \<longrightarrow>
      createAddBlockCommentOperations r startToken endToken =
        [\<lparr>range_op = r, text_op = startToken @ ''  '' @ endToken\<rparr>]) \<and>
   (Range_isEmpty r \<and>
    blockCommentStartToken config = Some startToken \<and>
    blockCommentEndToken config = Some endToken \<and>
    (startTokenIndexOf model r startToken = - 1 \<or>
     endTokenIndexOf model r endToken = - 1 \<or>
     endTokenBeforeCursorIndexOf model r endToken
       > startTokenIndexOf model r startToken + int (length startToken) - 1) \<longrightarrow>
      createOperationsForBlockComment cmd r config model builder =
        Inr (cmd\<lparr>usedEndToken := Some endToken\<rparr>,
             builder @ [(r, startToken @ ''  '' @ endToken)])) \<and>
   (\<not> Range_isEmpty r \<and>
    blockCommentStartToken config = Some startToken \<and>
    blockCommentEndToken config = Some endToken \<and>
    (startTokenIndexOf model r startToken = - 1 \<or>
     endTokenIndexOf model r endToken = - 1 \<or>
     endTokenBeforeCursorIndexOf model r endToken
       > startTokenIndexOf model r startToken + int (length startToken) - 1) \<longrightarrow>
      createOperationsForBlockComment cmd r config model builder =
        Inr (cmd\<lparr>usedEndToken := None\<rparr>,
             builder @
             [(newRange (startLineNumber r) (startColumn r)
                 (startLineNumber r) (startColumn r), startToken @ '' ''),
              (newRange (endLineNumber r) (endColumn r)
                 (endLineNumber r) (endColumn r), '' '' @ endToken)]))"
proof (intro conjI impI)
  assume "\<not> Range_isEmpty r"
  then show "createAddBlockCommentOperations r startToken endToken =
        [\<lparr>range_op = newRange (startLineNumber r) (startColumn r)
                              (startLineNumber r) (startColumn r),
          text_op = startToken @ '' ''\<rparr>,
         \<lparr>range_op = newRange (endLineNumber r) (endColumn r)
                              (endLineNumber r) (endColumn r),
          text_op = '' '' @ endToken\<rparr>]"
    by (simp add: add_ops_expand)
next
  assume "Range_isEmpty r"
  then show "createAddBlockCommentOperations r startToken endToken =
        [\<lparr>range_op = r, text_op = startToken @ ''  '' @ endToken\<rparr>]"
    by (simp add: add_ops_expand)
next
  assume h: "Range_isEmpty r \<and>
    blockCommentStartToken config = Some startToken \<and>
    blockCommentEndToken config = Some endToken \<and>
    (startTokenIndexOf model r startToken = - 1 \<or>
     endTokenIndexOf model r endToken = - 1 \<or>
     endTokenBeforeCursorIndexOf model r endToken
       > startTokenIndexOf model r startToken + int (length startToken) - 1)"
  then have "createOperationsForBlockComment cmd r config model builder =
           Inr (cmd\<lparr>usedEndToken := (if Range_isEmpty r then Some endToken else None)\<rparr>,
                submitAll (createAddBlockCommentOperations r startToken endToken) builder)"
    by (intro createOperations_add_branch) simp_all
  then show "createOperationsForBlockComment cmd r config model builder =
        Inr (cmd\<lparr>usedEndToken := Some endToken\<rparr>,
             builder @ [(r, startToken @ ''  '' @ endToken)])"
    using h by (simp add: submitAll_conv add_ops_expand)
next
  assume h: "\<not> Range_isEmpty r \<and>
    blockCommentStartToken config = Some startToken \<and>
    blockCommentEndToken config = Some endToken \<and>
    (startTokenIndexOf model r startToken = - 1 \<or>
     endTokenIndexOf model r endToken = - 1 \<or>
     endTokenBeforeCursorIndexOf model r endToken
       > startTokenIndexOf model r startToken + int (length startToken) - 1)"
  then have "createOperationsForBlockComment cmd r config model builder =
           Inr (cmd\<lparr>usedEndToken := (if Range_isEmpty r then Some endToken else None)\<rparr>,
                submitAll (createAddBlockCommentOperations r startToken endToken) builder)"
    by (intro createOperations_add_branch) simp_all
  then show "createOperationsForBlockComment cmd r config model builder =
        Inr (cmd\<lparr>usedEndToken := None\<rparr>,
             builder @
             [(newRange (startLineNumber r) (startColumn r)
                 (startLineNumber r) (startColumn r), startToken @ '' ''),
              (newRange (endLineNumber r) (endColumn r)
                 (endLineNumber r) (endColumn r), '' '' @ endToken)])"
    using h by (simp add: submitAll_conv add_ops_expand)
qed

lemma collapsed_add_example:
  "Range_isEmpty (newRange 1 3 1 3)"
  "startTokenIndexOf (textModel [''a x b'']) (newRange 1 3 1 3) ''/*'' = - 1"
  "\<not> Range_isEmpty (newRange 1 3 1 5)"
  by code_simp+

theorem createAddBlockCommentOperations_plan_witness:
  "createAddBlockCommentOperations (newRange 1 3 1 5) ''/*'' ''*/'' =
     [\<lparr>range_op = newRange 1 3 1 3, text_op = ''/* ''\<rparr>,
      \<lparr>range_op = newRange 1 5 1 5, text_op = '' */''\<rparr>] \<and>
   createAddBlockCommentOperations (newRange 1 3 1 3) ''/*'' ''*/'' =
     [\<lparr>range_op = newRange 1 3 1 3, text_op = ''/*  */''\<rparr>] \<and>
   createOperationsForBlockComment (newBlockCommentCommand (newRange 1 3 1 3))
     (newRange 1 3 1 3)
     \<lparr>blockCommentStartToken = Some ''/*'', blockCommentEndToken = Some ''*/''\<rparr>
     (textModel [''a x b'']) [] =
   Inr (\<lparr>selection = newRange 1 3 1 3, usedEndToken = Some ''*/''\<rparr>,
        [(newRange 1 3 1 3, ''/*  */'')]) \<and>
   createOperationsForBlockComment (newBlockCommentCommand (newRange 1 3 1 5))
     (newRange 1 3 1 5)
     \<lparr>blockCommentStartToken = Some ''/*'', blockCommentEndToken = Some ''*/''\<rparr>
     (textModel [''a x b'']) [] =
   Inr (\<lparr>selection = newRange 1 3 1 5, usedEndToken = None\<rparr>,
        [(newRange 1 3 1 3, ''/* ''), (newRange 1 5 1 5, '' */'')])"
proof (intro conjI)
  note collapsed = createAddBlockCommentOperations_plan
    [where r = "newRange 1 3 1 3" and startToken = "''/*''" and endToken = "''*/''"
       and config = "\<lparr>blockCommentStartToken = Some ''/*'', blockCommentEndToken = Some ''*/''\<rparr>"
       and model = "textModel [''a x b'']"
       and cmd = "newBlockCommentCommand (newRange 1 3 1 3)" and builder = "[]"]
  note spanning = createAddBlockCommentOperations_plan
    [where r = "newRange 1 3 1 5" and startToken = "''/*''" and endToken = "''*/''"
       and config = "\<lparr>blockCommentStartToken = Some ''/*'', blockCommentEndToken = Some ''*/''\<rparr>"
       and model = "textModel [''a x b'']"
       and cmd = "newBlockCommentCommand (newRange 1 3 1 5)" and builder = "[]"]
  have s5: "startTokenIndexOf (textModel [''a x b'']) (newRange 1 3 1 5) ''/*'' = - 1"
    by code_simp
  show "createAddBlockCommentOperations (newRange 1 3 1 5) ''/*'' ''*/'' =
     [\<lparr>range_op = newRange 1 3 1 3, text_op = ''/* ''\<rparr>,
      \<lparr>range_op = newRange 1 5 1 5, text_op = '' */''\<rparr>]"
    using spanning [THEN conjunct1] collapsed_add_example(3) by (simp add: newRange_def)
  show "createAddBlockCommentOperations (newRange 1 3 1 3) ''/*'' ''*/'' =
     [\<lparr>range_op = newRange 1 3 1 3, text_op = ''/*  */''\<rparr>]"
    using collapsed [THEN conjunct2, THEN conjunct1] collapsed_add_example(1) by simp
  show "createOperationsForBlockComment (newBlockCommentCommand (newRange 1 3 1 3))
     (newRange 1 3 1 3)
     \<lparr>blockCommentStartToken = Some ''/*'', blockCommentEndToken = Some ''*/''\<rparr>
     (textModel [''a x b'']) [] =
   Inr (\<lparr>selection = newRange 1 3 1 3, usedEndToken = Some ''*/''\<rparr>,
        [(newRange 1 3 1 3, ''/*  */'')])"
    using collapsed [THEN conjunct2, THEN conjunct2, THEN conjunct1]
      collapsed_add_example(1,2)
    by (simp add: newBlockCommentCommand_def)
  show "createOperationsForBlockComment (newBlockCommentCommand (newRange 1 3 1 5))
     (newRange 1 3 1 5)
     \<lparr>blockCommentStartToken = Some ''/*'', blockCommentEndToken = Some ''*/''\<rparr>
     (textModel [''a x b'']) [] =
   Inr (\<lparr>selection = newRange 1 3 1 5, usedEndToken = None\<rparr>,
        [(newRange 1 3 1 3, ''/* ''), (newRange 1 5 1 5, '' */'')])"
    using spanning [THEN conjunct2, THEN conjunct2, THEN conjunct2]
      collapsed_add_example(3) s5
    by (simp add: newBlockCommentCommand_def) (simp add: newRange_def)
qed

text \<open>
  C5. For a non-empty content range the remove-plan builder returns exactly two deletions:
  of the \<open>len(startToken)\<close> columns that end at the range start, and of the
  \<open>len(endToken)\<close> columns that begin at the range end. For an empty content range it
  returns exactly one deletion, from \<open>len(startToken)\<close> columns before the range start
  to \<open>len(endToken)\<close> columns after the range end.
\<close>

theorem createRemoveBlockCommentOperations_plan:
  "(\<not> Range_isEmpty r \<longrightarrow>
      createRemoveBlockCommentOperations r startToken endToken =
        [\<lparr>range_op = newRange (startLineNumber r) (startColumn r - int (length startToken))
                              (startLineNumber r) (startColumn r),
          text_op = []\<rparr>,
         \<lparr>range_op = newRange (endLineNumber r) (endColumn r)
                              (endLineNumber r) (endColumn r + int (length endToken)),
          text_op = []\<rparr>]) \<and>
   (Range_isEmpty r \<longrightarrow>
      createRemoveBlockCommentOperations r startToken endToken =
        [\<lparr>range_op = newRange (startLineNumber r) (startColumn r - int (length startToken))
                              (endLineNumber r) (endColumn r + int (length endToken)),
          text_op = []\<rparr>])"
  by (simp add: remove_ops_expand)

theorem createRemoveBlockCommentOperations_plan_witness:
  "createRemoveBlockCommentOperations (newRange 1 4 1 8) ''/* '' '' */'' =
     [\<lparr>range_op = newRange 1 1 1 4, text_op = []\<rparr>,
      \<lparr>range_op = newRange 1 8 1 11, text_op = []\<rparr>] \<and>
   createRemoveBlockCommentOperations (newRange 1 3 1 3) ''/*'' ''*/'' =
     [\<lparr>range_op = newRange 1 1 1 5, text_op = []\<rparr>]"
proof -
  have "\<not> Range_isEmpty (newRange 1 4 1 8)" and "Range_isEmpty (newRange 1 3 1 3)"
    by (simp_all add: Range_isEmpty_def newRange_def)
  then show ?thesis
    using createRemoveBlockCommentOperations_plan [of "newRange 1 4 1 8" "''/* ''" "'' */''"]
      createRemoveBlockCommentOperations_plan [of "newRange 1 3 1 3" "''/*''" "''*/''"]
    by (simp add: newRange_def)
qed

section \<open>The string searches\<close>

lemma occursAt_tokenAt: "occursAt s needle k = tokenAt s needle k"
proof
  assume o: "occursAt s needle k"
  have "s = take k s @ take (length needle) (drop k s) @ drop (length needle) (drop k s)"
    by (simp only: append_take_drop_id)
  then have "s = take k s @ needle @ drop (length needle) (drop k s)"
    using o by (simp add: occursAt_def)
  moreover have "length (take k s) = k"
    using o by (simp add: occursAt_def)
  ultimately show "tokenAt s needle k"
    unfolding tokenAt_def by blast
next
  assume "tokenAt s needle k"
  then show "occursAt s needle k"
    by (auto simp: tokenAt_def occursAt_def)
qed

lemma occursAt_le_length: "occursAt s needle k \<Longrightarrow> k \<le> length s"
  by (simp add: occursAt_def)

lemma lastIndexOf_is_last:
  assumes "0 \<le> p"
  shows "isLastOccurrenceAtOrBefore s needle p (lastIndexOf s needle p)"
proof -
  define m where "m = nat (min (max p 0) (int (length s)))"
  have m: "int m = min p (int (length s))" using assms by (simp add: m_def)
  show ?thesis
  proof (cases "List.find (occursAt s needle) (rev [0 ..< Suc m])")
    case None
    then have "\<forall>x \<in> set (rev [0 ..< Suc m]). \<not> occursAt s needle x"
      by (simp only: find_None_iff) blast
    moreover have "k \<in> set (rev [0 ..< Suc m])" if "k \<le> m" for k
      using that by (simp only: set_rev set_upt) simp
    ultimately have none: "\<forall>k \<le> m. \<not> occursAt s needle k"
      by blast
    have "\<not> occursAt s needle k" if "int k \<le> p" for k
    proof
      assume o: "occursAt s needle k"
      then have "k \<le> length s" by (rule occursAt_le_length)
      then have "k \<le> m" using that m by linarith
      then show False using none o by blast
    qed
    moreover have "lastIndexOf s needle p = - 1"
      using None by (simp add: lastIndexOf_def m_def)
    ultimately show ?thesis
      by (simp add: isLastOccurrenceAtOrBefore_def occursAt_tokenAt)
  next
    case (Some r)
    then obtain i where i: "i < Suc m" "occursAt s needle (rev [0 ..< Suc m] ! i)"
        "r = rev [0 ..< Suc m] ! i" "\<forall>j < i. \<not> occursAt s needle (rev [0 ..< Suc m] ! j)"
      by (auto simp add: find_Some_iff simp del: upt_Suc)
    have ri: "r = m - i" using i(1,3) by (simp add: rev_nth del: upt_Suc)
    have later: "\<not> occursAt s needle k" if "r < k" "int k \<le> p" for k
    proof
      assume o: "occursAt s needle k"
      then have "k \<le> length s" by (rule occursAt_le_length)
      then have km: "k \<le> m" using that m by linarith
      then have "m - k < i" using that(1) ri i(1) by linarith
      moreover have "rev [0 ..< Suc m] ! (m - k) = k"
        using km by (simp add: rev_nth del: upt_Suc)
      ultimately show False using i(4) o by force
    qed
    have "lastIndexOf s needle p = int r"
      using Some by (simp add: lastIndexOf_def m_def)
    moreover have "int r \<le> p" using ri m by linarith
    moreover have "occursAt s needle r" using i(2,3) by simp
    ultimately show ?thesis
      using later by (simp add: isLastOccurrenceAtOrBefore_def occursAt_tokenAt)
  qed
qed

lemma indexOf_is_first:
  assumes "needle \<noteq> []"
  shows "isFirstOccurrenceAtOrAfter s needle p (indexOf s needle p)"
proof -
  define m where "m = nat (min (max p 0) (int (length s)))"
  have mle: "m \<le> length s" by (simp add: m_def)
  have inrange: "m \<le> k" if "occursAt s needle k" "p \<le> int k" for k
    using that by (simp add: m_def)
  show ?thesis
  proof (cases "List.find (occursAt s needle) [m ..< Suc (length s)]")
    case None
    then have "\<forall>x \<in> set [m ..< Suc (length s)]. \<not> occursAt s needle x"
      by (simp only: find_None_iff) blast
    moreover have "k \<in> set [m ..< Suc (length s)]" if "m \<le> k" "k \<le> length s" for k
      using that by (simp only: set_upt) simp
    ultimately have none: "\<forall>k. m \<le> k \<and> k \<le> length s \<longrightarrow> \<not> occursAt s needle k"
      by blast
    have "\<not> occursAt s needle k" if "p \<le> int k" for k
      using none inrange [of k] that occursAt_le_length [of s needle k] by blast
    moreover have "indexOf s needle p = - 1"
      using None by (simp add: indexOf_def m_def)
    ultimately show ?thesis
      by (simp add: isFirstOccurrenceAtOrAfter_def occursAt_tokenAt)
  next
    case (Some r)
    then obtain i where i: "i < Suc (length s) - m" "occursAt s needle ([m ..< Suc (length s)] ! i)"
        "r = [m ..< Suc (length s)] ! i"
        "\<forall>j < i. \<not> occursAt s needle ([m ..< Suc (length s)] ! j)"
      by (auto simp add: find_Some_iff simp del: upt_Suc)
    have ri: "r = m + i" using i(1,3) by (simp del: upt_Suc)
    have o: "occursAt s needle r" using i(2,3) by simp
    have rlt: "r < length s" using o assms by (cases needle) (auto simp: occursAt_def)
    have pr: "p \<le> int r"
    proof -
      have "p \<le> int (length s) \<or> int (length s) < p" by linarith
      then show ?thesis
      proof
        assume "p \<le> int (length s)"
        then have "p \<le> int m" by (simp add: m_def)
        then show ?thesis using ri by linarith
      next
        assume "int (length s) < p"
        then have "m = length s" by (simp add: m_def)
        then show ?thesis using ri rlt by linarith
      qed
    qed
    have earlier: "\<not> occursAt s needle k" if "p \<le> int k" "k < r" for k
    proof
      assume ok: "occursAt s needle k"
      then have mk: "m \<le> k" using that(1) by (rule inrange)
      then have "k - m < i" using that(2) ri by linarith
      moreover have "[m ..< Suc (length s)] ! (k - m) = k"
        using mk that(2) rlt by (simp del: upt_Suc)
      ultimately show False using i(4) ok by force
    qed
    have "indexOf s needle p = int r"
      using Some by (simp add: indexOf_def m_def)
    then show ?thesis
      using pr o earlier by (simp add: isFirstOccurrenceAtOrAfter_def occursAt_tokenAt)
  qed
qed

section \<open>Classification\<close>

text \<open>
  C2, as amended. For a selection whose start column is at least 1 and a non-empty end
  token: the located start token is the last occurrence of the start token on the start
  line at or before offset \<open>startColumn - 1 + len(startToken)\<close>; the located end
  token is the first occurrence of the end token on the end line at or after offset
  \<open>endColumn - 1 - len(endToken)\<close>; and the lookback is the last occurrence of the
  end token on the start line at or before offset \<open>startColumn - 1 + len(endToken)\<close>,
  a window widened by the length of the end token and not of the start token. Each is
  \<open>-1\<close> when there is no such occurrence. With both tokens located, the command
  submits the add-plan exactly when the lookback is greater than
  \<open>startTokenIndex + len(startToken) - 1\<close>, that is, starts after the last code unit
  of the located start token, and a remove-plan exactly when it is not. With either token
  not located, it submits the add-plan.
\<close>

theorem classification_of_selection:
  assumes "blockCommentStartToken config = Some st"
    and "blockCommentEndToken config = Some et"
    and "et \<noteq> []"
    and "1 \<le> startColumn sel"
  shows
    "isLastOccurrenceAtOrBefore (getLineContent model (startLineNumber sel)) st
       (startColumn sel - 1 + int (length st)) (startTokenIndexOf model sel st) \<and>
     isFirstOccurrenceAtOrAfter (getLineContent model (endLineNumber sel)) et
       (endColumn sel - 1 - int (length et)) (endTokenIndexOf model sel et) \<and>
     isLastOccurrenceAtOrBefore (getLineContent model (startLineNumber sel)) et
       (startColumn sel - 1 + int (length et)) (endTokenBeforeCursorIndexOf model sel et) \<and>
     (startTokenIndexOf model sel st \<noteq> - 1 \<and> endTokenIndexOf model sel et \<noteq> - 1 \<longrightarrow>
        ((createOperationsForBlockComment cmd sel config model builder =
            Inr (cmd\<lparr>usedEndToken := (if Range_isEmpty sel then Some et else None)\<rparr>,
                 submitAll (createAddBlockCommentOperations sel st et) builder))
          = (endTokenBeforeCursorIndexOf model sel et
               > startTokenIndexOf model sel st + int (length st) - 1)) \<and>
        ((\<exists>r st' et'. createOperationsForBlockComment cmd sel config model builder =
            Inr (cmd, submitAll (createRemoveBlockCommentOperations r st' et') builder))
          = (\<not> endTokenBeforeCursorIndexOf model sel et
                 > startTokenIndexOf model sel st + int (length st) - 1))) \<and>
     (startTokenIndexOf model sel st = - 1 \<or> endTokenIndexOf model sel et = - 1 \<longrightarrow>
        createOperationsForBlockComment cmd sel config model builder =
          Inr (cmd\<lparr>usedEndToken := (if Range_isEmpty sel then Some et else None)\<rparr>,
               submitAll (createAddBlockCommentOperations sel st et) builder))"
proof (intro conjI impI)
  show "isLastOccurrenceAtOrBefore (getLineContent model (startLineNumber sel)) st
       (startColumn sel - 1 + int (length st)) (startTokenIndexOf model sel st)"
    unfolding startTokenIndexOf_def
    using assms(4) by (intro lastIndexOf_is_last) linarith
  show "isFirstOccurrenceAtOrAfter (getLineContent model (endLineNumber sel)) et
       (endColumn sel - 1 - int (length et)) (endTokenIndexOf model sel et)"
    unfolding endTokenIndexOf_def
    using assms(3) by (rule indexOf_is_first)
  show "isLastOccurrenceAtOrBefore (getLineContent model (startLineNumber sel)) et
       (startColumn sel - 1 + int (length et)) (endTokenBeforeCursorIndexOf model sel et)"
    unfolding endTokenBeforeCursorIndexOf_def
    using assms(4) by (intro lastIndexOf_is_last) linarith
next
  assume found: "startTokenIndexOf model sel st \<noteq> - 1 \<and> endTokenIndexOf model sel et \<noteq> - 1"
  show "(createOperationsForBlockComment cmd sel config model builder =
            Inr (cmd\<lparr>usedEndToken := (if Range_isEmpty sel then Some et else None)\<rparr>,
                 submitAll (createAddBlockCommentOperations sel st et) builder))
          = (endTokenBeforeCursorIndexOf model sel et
               > startTokenIndexOf model sel st + int (length st) - 1)"
  proof (cases "endTokenBeforeCursorIndexOf model sel et
               > startTokenIndexOf model sel st + int (length st) - 1")
    case True
    then show ?thesis
      using createOperations_add_branch [OF assms(1,2), of model sel cmd builder] by simp
  next
    case False
    then obtain r st' et' where
      rm: "createOperationsForBlockComment cmd sel config model builder =
             Inr (cmd, submitAll (createRemoveBlockCommentOperations r st' et') builder)"
      using createOperations_remove_branch [OF assms(1,2), of model sel cmd builder] found
      by blast
    show ?thesis
      using rm False submit_add_neq_remove [of sel st et builder r st' et'] by simp
  qed
  show "(\<exists>r st' et'. createOperationsForBlockComment cmd sel config model builder =
            Inr (cmd, submitAll (createRemoveBlockCommentOperations r st' et') builder))
          = (\<not> endTokenBeforeCursorIndexOf model sel et
                 > startTokenIndexOf model sel st + int (length st) - 1)"
  proof (cases "endTokenBeforeCursorIndexOf model sel et
               > startTokenIndexOf model sel st + int (length st) - 1")
    case True
    have "createOperationsForBlockComment cmd sel config model builder \<noteq>
            Inr (cmd, submitAll (createRemoveBlockCommentOperations r st' et') builder)"
      for r st' et'
      using createOperations_add_branch [OF assms(1,2), of model sel cmd builder] True
        submit_add_neq_remove [of sel st et builder r st' et']
      by simp
    then show ?thesis using True by blast
  next
    case False
    then have "\<exists>r st' et'. createOperationsForBlockComment cmd sel config model builder =
             Inr (cmd, submitAll (createRemoveBlockCommentOperations r st' et') builder)"
      using createOperations_remove_branch [OF assms(1,2), of model sel cmd builder] found
      by blast
    then show ?thesis using False by blast
  qed
next
  assume "startTokenIndexOf model sel st = - 1 \<or> endTokenIndexOf model sel et = - 1"
  then show "createOperationsForBlockComment cmd sel config model builder =
          Inr (cmd\<lparr>usedEndToken := (if Range_isEmpty sel then Some et else None)\<rparr>,
               submitAll (createAddBlockCommentOperations sel st et) builder)"
    using createOperations_add_branch [OF assms(1,2), of model sel cmd builder] by blast
qed

lemma spec_example_searches:
  "startTokenIndexOf (textModel [''a /* b'', ''c */'']) (newRange 1 6 2 2) ''/*'' = 2"
  "endTokenIndexOf (textModel [''a /* b'', ''c */'']) (newRange 1 6 2 2) ''*/'' = 2"
  "endTokenBeforeCursorIndexOf (textModel [''a /* b'', ''c */'']) (newRange 1 6 2 2) ''*/'' = - 1"
  by code_simp+

lemma closed_comment_example:
  "startTokenIndexOf (textModel [''/* a */ bcd */'']) (newRange 1 9 1 12) ''/*'' = 0"
  "endTokenIndexOf (textModel [''/* a */ bcd */'']) (newRange 1 9 1 12) ''*/'' = 12"
  "endTokenBeforeCursorIndexOf (textModel [''/* a */ bcd */'']) (newRange 1 9 1 12) ''*/'' = 5"
  "startColumn (newRange 1 9 1 12) = 9"
  "startLineNumber (newRange 1 9 1 12) = 1"
  "getLineContent (textModel [''/* a */ bcd */'']) 1 = ''/* a */ bcd */''"
  "Range_isEmpty (newRange 1 9 1 12) = False"
  by code_simp+

theorem classification_of_selection_witness:
  "isLastOccurrenceAtOrBefore ''/* a */ bcd */'' ''*/'' (9 - 1 + int (length ''*/'')) 5 \<and>
   createOperationsForBlockComment (newBlockCommentCommand (newRange 1 9 1 12))
       (newRange 1 9 1 12)
       \<lparr>blockCommentStartToken = Some ''/*'', blockCommentEndToken = Some ''*/''\<rparr>
       (textModel [''/* a */ bcd */'']) [] =
     Inr ((newBlockCommentCommand (newRange 1 9 1 12))\<lparr>usedEndToken := None\<rparr>,
          submitAll (createAddBlockCommentOperations (newRange 1 9 1 12) ''/*'' ''*/'') []) \<and>
   (\<exists>r st' et'.
     createOperationsForBlockComment (newBlockCommentCommand (newRange 1 6 2 2))
       (newRange 1 6 2 2)
       \<lparr>blockCommentStartToken = Some ''/*'', blockCommentEndToken = Some ''*/''\<rparr>
       (textModel [''a /* b'', ''c */'']) [] =
     Inr (newBlockCommentCommand (newRange 1 6 2 2),
          submitAll (createRemoveBlockCommentOperations r st' et') []))"
proof (intro conjI)
  note closed = classification_of_selection
    [where config = "\<lparr>blockCommentStartToken = Some ''/*'', blockCommentEndToken = Some ''*/''\<rparr>"
       and st = "''/*''" and et = "''*/''" and model = "textModel [''/* a */ bcd */'']"
       and sel = "newRange 1 9 1 12" and cmd = "newBlockCommentCommand (newRange 1 9 1 12)"
       and builder = "[]"]
  have c: "isLastOccurrenceAtOrBefore
             (getLineContent (textModel [''/* a */ bcd */''])
                (startLineNumber (newRange 1 9 1 12)))
             ''*/'' (startColumn (newRange 1 9 1 12) - 1 + int (length ''*/''))
             (endTokenBeforeCursorIndexOf (textModel [''/* a */ bcd */''])
                (newRange 1 9 1 12) ''*/'')"
    using closed by (simp add: closed_comment_example(4))
  then show "isLastOccurrenceAtOrBefore ''/* a */ bcd */'' ''*/'' (9 - 1 + int (length ''*/'')) 5"
    by (simp only: closed_comment_example)
  show "createOperationsForBlockComment (newBlockCommentCommand (newRange 1 9 1 12))
       (newRange 1 9 1 12)
       \<lparr>blockCommentStartToken = Some ''/*'', blockCommentEndToken = Some ''*/''\<rparr>
       (textModel [''/* a */ bcd */'']) [] =
     Inr ((newBlockCommentCommand (newRange 1 9 1 12))\<lparr>usedEndToken := None\<rparr>,
          submitAll (createAddBlockCommentOperations (newRange 1 9 1 12) ''/*'' ''*/'') [])"
    using closed by (simp add: closed_comment_example)
  show "\<exists>r st' et'.
     createOperationsForBlockComment (newBlockCommentCommand (newRange 1 6 2 2))
       (newRange 1 6 2 2)
       \<lparr>blockCommentStartToken = Some ''/*'', blockCommentEndToken = Some ''*/''\<rparr>
       (textModel [''a /* b'', ''c */'']) [] =
     Inr (newBlockCommentCommand (newRange 1 6 2 2),
          submitAll (createRemoveBlockCommentOperations r st' et') [])"
    using classification_of_selection
      [where config = "\<lparr>blockCommentStartToken = Some ''/*'', blockCommentEndToken = Some ''*/''\<rparr>"
         and st = "''/*''" and et = "''*/''" and model = "textModel [''a /* b'', ''c */'']"
         and sel = "newRange 1 6 2 2" and cmd = "newBlockCommentCommand (newRange 1 6 2 2)"
         and builder = "[]"]
    by (simp add: spec_example_searches) (simp add: newRange_def)
qed

lemma html_example:
  "startTokenIndexOf (textModel [''<!--abcd-->'']) (newRange 1 5 1 9) ''<!--'' = 0"
  "endTokenIndexOf (textModel [''<!--abcd-->'']) (newRange 1 5 1 9) ''-->'' = 8"
  "endTokenBeforeCursorIndexOf (textModel [''<!--abcd-->'']) (newRange 1 5 1 9) ''-->'' = - 1"
  "lastIndexOf ''<!--abcd-->'' ''-->'' (5 - 1 + int (length ''<!--'')) = 8"
  "createOperationsForBlockComment (newBlockCommentCommand (newRange 1 5 1 9))
     (newRange 1 5 1 9)
     \<lparr>blockCommentStartToken = Some ''<!--'', blockCommentEndToken = Some ''-->''\<rparr>
     (textModel [''<!--abcd-->'']) [] =
   Inr (newBlockCommentCommand (newRange 1 5 1 9),
        [(newRange 1 1 1 5, []), (newRange 1 9 1 12, [])])"
  "createOperationsForBlockComment (newBlockCommentCommand (newRange 1 5 1 9))
     (newRange 1 5 1 9)
     \<lparr>blockCommentStartToken = Some ''<!--'', blockCommentEndToken = Some ''-->''\<rparr>
     (textModel [''<!--abcd-->'']) [] \<noteq>
   Inr ((newBlockCommentCommand (newRange 1 5 1 9))\<lparr>usedEndToken := None\<rparr>,
        submitAll (createAddBlockCommentOperations (newRange 1 5 1 9) ''<!--'' ''-->'') [])"
  by code_simp+

text \<open>
  C2, as stated, fails. With the tokens \<open><!--\<close> and \<open>-->\<close>, on the line
  \<open><!--abcd-->\<close> with \<open>abcd\<close> selected, both tokens are located, at offsets
  0 and 8. The last occurrence of the end token at or before the bound of the first search,
  \<open>startColumn - 1 + len(startToken) = 8\<close>, is at offset 8, after the located start
  token, so the statement classifies the selection as not commented. The command looks
  back only up to offset \<open>startColumn - 1 + len(endToken) = 7\<close>, finds no end token
  there, and submits the remove-plan.
\<close>

theorem classification_counterexample:
  "startTokenIndexOf (textModel [''<!--abcd-->'']) (newRange 1 5 1 9) ''<!--'' = 0 \<and>
   endTokenIndexOf (textModel [''<!--abcd-->'']) (newRange 1 5 1 9) ''-->'' = 8 \<and>
   isLastOccurrenceAtOrBefore ''<!--abcd-->'' ''-->'' (5 - 1 + int (length ''<!--'')) 8 \<and>
   (8 :: int) > 0 + int (length ''<!--'') - 1 \<and>
   createOperationsForBlockComment (newBlockCommentCommand (newRange 1 5 1 9))
     (newRange 1 5 1 9)
     \<lparr>blockCommentStartToken = Some ''<!--'', blockCommentEndToken = Some ''-->''\<rparr>
     (textModel [''<!--abcd-->'']) [] =
   Inr (newBlockCommentCommand (newRange 1 5 1 9),
        [(newRange 1 1 1 5, []), (newRange 1 9 1 12, [])]) \<and>
   createOperationsForBlockComment (newBlockCommentCommand (newRange 1 5 1 9))
     (newRange 1 5 1 9)
     \<lparr>blockCommentStartToken = Some ''<!--'', blockCommentEndToken = Some ''-->''\<rparr>
     (textModel [''<!--abcd-->'']) [] \<noteq>
   Inr ((newBlockCommentCommand (newRange 1 5 1 9))\<lparr>usedEndToken := None\<rparr>,
        submitAll (createAddBlockCommentOperations (newRange 1 5 1 9) ''<!--'' ''-->'') [])"
proof -
  have "isLastOccurrenceAtOrBefore ''<!--abcd-->'' ''-->'' (5 - 1 + int (length ''<!--''))
          (lastIndexOf ''<!--abcd-->'' ''-->'' (5 - 1 + int (length ''<!--'')))"
    by (rule lastIndexOf_is_last) simp
  then have "isLastOccurrenceAtOrBefore ''<!--abcd-->'' ''-->'' (5 - 1 + int (length ''<!--'')) 8"
    by (simp only: html_example(4))
  then show ?thesis
    using html_example(1,2,5,6) by simp
qed

section \<open>Whitespace adjustment\<close>

text \<open>
  C3. When the command takes the remove branch, the deletion of the start token begins at
  the located start token and covers it, plus one more column when a space follows it; the
  deletion of the end token covers the located end token and begins one column earlier
  when a space precedes it. When nothing lies between the two widened tokens, the two
  deletions are submitted as one. On the line \<open>/* text */\<close>, with \<open>text\<close>
  selected or with the whole line selected, running the command leaves exactly
  \<open>text\<close>.
\<close>

theorem whitespace_adjustment:
  assumes "blockCommentStartToken config = Some st"
    and "blockCommentEndToken config = Some et"
    and "startTokenIndexOf model sel st \<noteq> - 1"
    and "endTokenIndexOf model sel et \<noteq> - 1"
    and "\<not> endTokenBeforeCursorIndexOf model sel et
           > startTokenIndexOf model sel st + int (length st) - 1"
  shows
    "createOperationsForBlockComment cmd sel config model builder =
       Inr (cmd, builder @
         (let sti = startTokenIndexOf model sel st;
              eti = endTokenIndexOf model sel et;
              a = (if charCodeAt (getLineContent model (startLineNumber sel))
                        (sti + int (length st)) = Some (CHR '' '')
                   then 1 else 0);
              b = (if charCodeAt (getLineContent model (endLineNumber sel)) (eti - 1)
                        = Some (CHR '' '')
                   then 1 else 0)
          in if startLineNumber sel = endLineNumber sel \<and>
                sti + 1 + int (length st) + a = eti - b + 1
             then [(newRange (startLineNumber sel) (sti + 1)
                      (endLineNumber sel) (eti + 1 + int (length et)), [])]
             else [(newRange (startLineNumber sel) (sti + 1)
                      (startLineNumber sel) (sti + 1 + int (length st) + a), []),
                   (newRange (endLineNumber sel) (eti + 1 - b)
                      (endLineNumber sel) (eti + 1 + int (length et)), [])])) \<and>
     runCommand \<lparr>blockCommentStartToken = Some ''/*'', blockCommentEndToken = Some ''*/''\<rparr>
         (newRange 1 4 1 8) [''/* text */''] =
       Inr ([''text''], newSelection 1 1 1 5) \<and>
     runCommand \<lparr>blockCommentStartToken = Some ''/*'', blockCommentEndToken = Some ''*/''\<rparr>
         (newRange 1 1 1 11) [''/* text */''] =
       Inr ([''text''], newSelection 1 1 1 5)"
proof (intro conjI)
  show "runCommand \<lparr>blockCommentStartToken = Some ''/*'', blockCommentEndToken = Some ''*/''\<rparr>
         (newRange 1 4 1 8) [''/* text */''] =
       Inr ([''text''], newSelection 1 1 1 5)"
    by code_simp
  show "runCommand \<lparr>blockCommentStartToken = Some ''/*'', blockCommentEndToken = Some ''*/''\<rparr>
         (newRange 1 1 1 11) [''/* text */''] =
       Inr ([''text''], newSelection 1 1 1 5)"
    by code_simp
qed (rule remove_branch_submitted [OF assms])

lemma text_example_searches:
  "startTokenIndexOf (textModel [''/* text */'']) (newRange 1 4 1 8) ''/*'' = 0"
  "endTokenIndexOf (textModel [''/* text */'']) (newRange 1 4 1 8) ''*/'' = 8"
  "endTokenBeforeCursorIndexOf (textModel [''/* text */'']) (newRange 1 4 1 8) ''*/'' = - 1"
  "charCodeAt (getLineContent (textModel [''/* text */'']) 1) 2 = Some (CHR '' '')"
  "charCodeAt (getLineContent (textModel [''/* text */'']) 1) 7 = Some (CHR '' '')"
  by code_simp+

theorem whitespace_adjustment_witness:
  "createOperationsForBlockComment (newBlockCommentCommand (newRange 1 4 1 8))
     (newRange 1 4 1 8)
     \<lparr>blockCommentStartToken = Some ''/*'', blockCommentEndToken = Some ''*/''\<rparr>
     (textModel [''/* text */'']) [] =
   Inr (newBlockCommentCommand (newRange 1 4 1 8),
        [(newRange 1 1 1 4, []), (newRange 1 8 1 11, [])])"
proof -
  have "createOperationsForBlockComment (newBlockCommentCommand (newRange 1 4 1 8))
     (newRange 1 4 1 8)
     \<lparr>blockCommentStartToken = Some ''/*'', blockCommentEndToken = Some ''*/''\<rparr>
     (textModel [''/* text */'']) [] =
   Inr (newBlockCommentCommand (newRange 1 4 1 8), [] @
         (let sti = startTokenIndexOf (textModel [''/* text */'']) (newRange 1 4 1 8) ''/*'';
              eti = endTokenIndexOf (textModel [''/* text */'']) (newRange 1 4 1 8) ''*/'';
              a = (if charCodeAt (getLineContent (textModel [''/* text */''])
                        (startLineNumber (newRange 1 4 1 8)))
                        (sti + int (length ''/*'')) = Some (CHR '' '')
                   then 1 else 0);
              b = (if charCodeAt (getLineContent (textModel [''/* text */''])
                        (endLineNumber (newRange 1 4 1 8))) (eti - 1)
                        = Some (CHR '' '')
                   then 1 else 0)
          in if startLineNumber (newRange 1 4 1 8) = endLineNumber (newRange 1 4 1 8) \<and>
                sti + 1 + int (length ''/*'') + a = eti - b + 1
             then [(newRange (startLineNumber (newRange 1 4 1 8)) (sti + 1)
                      (endLineNumber (newRange 1 4 1 8)) (eti + 1 + int (length ''*/'')), [])]
             else [(newRange (startLineNumber (newRange 1 4 1 8)) (sti + 1)
                      (startLineNumber (newRange 1 4 1 8)) (sti + 1 + int (length ''/*'') + a), []),
                   (newRange (endLineNumber (newRange 1 4 1 8)) (eti + 1 - b)
                      (endLineNumber (newRange 1 4 1 8)) (eti + 1 + int (length ''*/'')), [])]))"
    by (rule whitespace_adjustment [THEN conjunct1])
       (simp_all add: text_example_searches)
  moreover have "startLineNumber (newRange 1 4 1 8) = 1" "endLineNumber (newRange 1 4 1 8) = 1"
    by (simp_all add: newRange_def)
  ultimately show ?thesis
    by (simp add: text_example_searches Let_def)
qed

section \<open>Orchestration\<close>

text \<open>
  C8. When the language at the selection start has no comment configuration, or the
  configuration's block comment start token or end token is absent or empty, the edit
  phase returns normally with the command and the builder unchanged: no operation is
  submitted.
\<close>

theorem getEditOperations_unsupported_language:
  assumes "getComments (getLanguageIdAtPosition model (startLineNumber (selection cmd))
                          (startColumn (selection cmd))) = None \<or>
           (\<exists>config.
              getComments (getLanguageIdAtPosition model (startLineNumber (selection cmd))
                             (startColumn (selection cmd))) = Some config \<and>
              (blockCommentStartToken config = None \<or> blockCommentStartToken config = Some [] \<or>
               blockCommentEndToken config = None \<or> blockCommentEndToken config = Some []))"
  shows "getEditOperations getComments cmd model builder = Inr (cmd, builder)"
  using assms
  by (auto simp: getEditOperations_def Let_def falsy_def)

theorem getEditOperations_unsupported_language_witness:
  "getEditOperations
     (\<lambda>lang. Some \<lparr>blockCommentStartToken = Some ''<!--'', blockCommentEndToken = None\<rparr>)
     (newBlockCommentCommand (newRange 1 1 1 3)) (textModel [''abc'']) []
   = Inr (newBlockCommentCommand (newRange 1 1 1 3), [])"
  by (rule getEditOperations_unsupported_language) simp

section \<open>Applying single-line edits\<close>

lemma lineOf_update_same:
  "1 \<le> ln \<Longrightarrow> ln \<le> int (length doc) \<Longrightarrow> lineOf (doc[nat (ln - 1) := x]) ln = x"
  by (simp add: lineOf_def)

lemma lineOf_update_other:
  "1 \<le> ln \<Longrightarrow> 1 \<le> ln' \<Longrightarrow> ln \<noteq> ln' \<Longrightarrow>
   lineOf (doc[nat (ln' - 1) := x]) ln = lineOf doc ln"
  by (simp add: lineOf_def)

lemma applyEdit_single_line:
  assumes "1 \<le> ln" and "ln \<le> int (length doc)"
  shows "applyEdit (newRange ln a ln b, txt) doc =
           doc[nat (ln - 1) :=
                 take (nat (a - 1)) (lineOf doc ln) @ txt @ drop (nat (b - 1)) (lineOf doc ln)]"
proof -
  have i: "nat (ln - 1) < length doc" using assms by linarith
  have s: "nat ln = Suc (nat (ln - 1))" using assms by linarith
  show ?thesis
    using i by (simp add: applyEdit_def newRange_def s upd_conv_take_nth_drop)
qed

lemma charCodeAt_append_mid:
  "charCodeAt (A @ x # R) (int (length A)) = Some x"
  by (simp add: charCodeAt_def)

lemma take_exact: "n = length X \<Longrightarrow> take n (X @ Y) = X"
  by simp

lemma drop_exact: "n = length X \<Longrightarrow> drop n (X @ Y) = Y"
  by simp

lemma Range_eq_newRange:
  "(sel :: Range) =
     newRange (startLineNumber sel) (startColumn sel) (endLineNumber sel) (endColumn sel)"
  by (simp add: newRange_def)

section \<open>The add-plan leaves the text in place\<close>

text \<open>
  C10. Every operation of an add-plan has an empty range. Applied to a document, such an
  operation splits its line at the start column and puts its text between the two parts:
  every code unit of the line is kept, and every other line is unchanged.
\<close>

theorem add_plan_ranges_empty:
  "(\<forall>op \<in> set (createAddBlockCommentOperations r startToken endToken).
      Range_isEmpty (range_op op)) \<and>
   (\<forall>op \<in> set (createAddBlockCommentOperations r startToken endToken).
      \<forall>doc. 1 \<le> startLineNumber (range_op op) \<and>
            startLineNumber (range_op op) \<le> int (length doc) \<longrightarrow>
        applyEdit (range_op op, text_op op) doc =
          doc[nat (startLineNumber (range_op op) - 1) :=
                take (nat (startColumn (range_op op) - 1))
                  (lineOf doc (startLineNumber (range_op op))) @
                text_op op @
                drop (nat (startColumn (range_op op) - 1))
                  (lineOf doc (startLineNumber (range_op op)))])"
proof (intro conjI ballI allI impI)
  fix op assume "op \<in> set (createAddBlockCommentOperations r startToken endToken)"
  then show e: "Range_isEmpty (range_op op)"
    by (auto simp: add_ops_expand Range_isEmpty_def newRange_def split: if_splits)
  fix doc :: "string list"
  assume b: "1 \<le> startLineNumber (range_op op) \<and>
             startLineNumber (range_op op) \<le> int (length doc)"
  have r: "range_op op = newRange (startLineNumber (range_op op)) (startColumn (range_op op))
                           (startLineNumber (range_op op)) (startColumn (range_op op))"
    using e by (subst Range_eq_newRange [of "range_op op"]) (simp add: Range_isEmpty_def)
  show "applyEdit (range_op op, text_op op) doc =
          doc[nat (startLineNumber (range_op op) - 1) :=
                take (nat (startColumn (range_op op) - 1))
                  (lineOf doc (startLineNumber (range_op op))) @
                text_op op @
                drop (nat (startColumn (range_op op) - 1))
                  (lineOf doc (startLineNumber (range_op op)))]"
    using b by (subst r) (simp add: applyEdit_single_line)
qed

theorem add_plan_ranges_empty_witness:
  "Range_isEmpty (newRange 1 3 1 3) \<and> Range_isEmpty (newRange 1 5 1 5) \<and>
   applyEdit (newRange 1 5 1 5, '' */'') [''a xy b''] = [''a xy */ b'']"
proof -
  have ops: "createAddBlockCommentOperations (newRange 1 3 1 5) ''/*'' ''*/'' =
          [\<lparr>range_op = newRange 1 3 1 3, text_op = ''/* ''\<rparr>,
           \<lparr>range_op = newRange 1 5 1 5, text_op = '' */''\<rparr>]"
    by (simp add: add_ops_expand Range_isEmpty_def newRange_def)
  have "Range_isEmpty (newRange 1 3 1 3) \<and> Range_isEmpty (newRange 1 5 1 5)"
    using add_plan_ranges_empty [of "newRange 1 3 1 5" "''/*''" "''*/''", THEN conjunct1]
    by (simp add: ops)
  moreover have "applyEdit (newRange 1 5 1 5, '' */'') [''a xy b''] = [''a xy */ b'']"
    by code_simp
  ultimately show ?thesis by simp
qed

section \<open>The add-plan on a document\<close>

lemma add_plan_same_line:
  assumes "1 \<le> ln" and "ln \<le> int (length doc)"
    and "lineOf doc ln = A @ B @ C" and "B \<noteq> []"
  shows "applyAddPlan st et
           (newRange ln (int (length A) + 1) ln (int (length A) + int (length B) + 1)) doc =
         Inr (doc[nat (ln - 1) := A @ st @ '' '' @ B @ '' '' @ et @ C],
              newSelection ln (int (length A) + 1 + int (length st) + 1)
                ln (int (length A) + int (length B) + 1 + int (length st) + 1))"
proof -
  let ?sel = "newRange ln (int (length A) + 1) ln (int (length A) + int (length B) + 1)"
  let ?e1 = "(newRange ln (int (length A) + 1) ln (int (length A) + 1), st @ '' '')"
  let ?e2 = "(newRange ln (int (length A) + int (length B) + 1)
                ln (int (length A) + int (length B) + 1), '' '' @ et)"
  have ne: "\<not> Range_isEmpty ?sel"
    using assms(4) by (simp add: Range_isEmpty_def newRange_def)
  have b: "submitAll (createAddBlockCommentOperations ?sel st et) [] = [?e1, ?e2]"
    using ne by (simp add: add_ops_expand submitAll_conv) (simp add: newRange_def)
  have d2: "applyEdit ?e2 doc = doc[nat (ln - 1) := A @ B @ '' '' @ et @ C]"
    using assms(1,2,3) by (simp add: applyEdit_single_line nat_add_distrib)
  have d1: "applyEdit ?e1 (doc[nat (ln - 1) := A @ B @ '' '' @ et @ C]) =
              doc[nat (ln - 1) := A @ st @ '' '' @ B @ '' '' @ et @ C]"
    using assms(1,2) by (simp add: applyEdit_single_line lineOf_update_same)
  have ap: "applyEdits [?e1, ?e2] doc = doc[nat (ln - 1) := A @ st @ '' '' @ B @ '' '' @ et @ C]"
    by (simp only: applyEdits_def foldr.simps comp_apply id_apply d2 d1)
  have cur: "computeCursorState
               ((newBlockCommentCommand ?sel)\<lparr>usedEndToken := None\<rparr>)
               (getInverseEditOperations [?e1, ?e2] doc) =
             Inr (newSelection ln (int (length A) + 1 + int (length st) + 1)
                ln (int (length A) + int (length B) + 1 + int (length st) + 1))"
    by (simp add: getInverseEditOperations_def computeCursorState_def Let_def newRange_def
          newSelection_def)
  have len: "(length (createAddBlockCommentOperations ?sel st et) = 1) = False"
    using ne by (simp add: add_ops_length del: One_nat_def)
  show ?thesis
    unfolding applyAddPlan_def Let_def b len if_False cur ap
    by simp
qed

lemma add_plan_two_lines:
  assumes "1 \<le> l1" and "l1 < l2" and "l2 \<le> int (length doc)"
    and "lineOf doc l1 = A @ R" and "lineOf doc l2 = B @ C"
  shows "applyAddPlan st et
           (newRange l1 (int (length A) + 1) l2 (int (length B) + 1)) doc =
         Inr (doc[nat (l2 - 1) := B @ '' '' @ et @ C, nat (l1 - 1) := A @ st @ '' '' @ R],
              newSelection l1 (int (length A) + 1 + int (length st) + 1)
                l2 (int (length B) + 1))"
proof -
  let ?sel = "newRange l1 (int (length A) + 1) l2 (int (length B) + 1)"
  let ?e1 = "(newRange l1 (int (length A) + 1) l1 (int (length A) + 1), st @ '' '')"
  let ?e2 = "(newRange l2 (int (length B) + 1) l2 (int (length B) + 1), '' '' @ et)"
  have ne: "\<not> Range_isEmpty ?sel"
    using assms(2) by (simp add: Range_isEmpty_def newRange_def)
  have b: "submitAll (createAddBlockCommentOperations ?sel st et) [] = [?e1, ?e2]"
    using ne by (simp add: add_ops_expand submitAll_conv) (simp add: newRange_def)
  have d2: "applyEdit ?e2 doc = doc[nat (l2 - 1) := B @ '' '' @ et @ C]"
    using assms by (simp add: applyEdit_single_line)
  have l1': "lineOf (doc[nat (l2 - 1) := B @ '' '' @ et @ C]) l1 = A @ R"
    using assms by (simp add: lineOf_update_other)
  have d1: "applyEdit ?e1 (doc[nat (l2 - 1) := B @ '' '' @ et @ C]) =
              doc[nat (l2 - 1) := B @ '' '' @ et @ C, nat (l1 - 1) := A @ st @ '' '' @ R]"
    using assms(1,2,3) l1' by (simp add: applyEdit_single_line)
  have ap: "applyEdits [?e1, ?e2] doc =
              doc[nat (l2 - 1) := B @ '' '' @ et @ C, nat (l1 - 1) := A @ st @ '' '' @ R]"
    by (simp only: applyEdits_def foldr.simps comp_apply id_apply d2 d1)
  have cur: "computeCursorState
               ((newBlockCommentCommand ?sel)\<lparr>usedEndToken := None\<rparr>)
               (getInverseEditOperations [?e1, ?e2] doc) =
             Inr (newSelection l1 (int (length A) + 1 + int (length st) + 1)
                l2 (int (length B) + 1))"
    using assms(2)
    by (simp add: getInverseEditOperations_def computeCursorState_def Let_def newRange_def
          newSelection_def)
  have len: "(length (createAddBlockCommentOperations ?sel st et) = 1) = False"
    using ne by (simp add: add_ops_length del: One_nat_def)
  show ?thesis
    unfolding applyAddPlan_def Let_def b len if_False cur ap
    by simp
qed

lemma add_plan_keeps_selected_text:
  assumes valid: "validSelection doc sel"
    and nonempty: "\<not> Range_isEmpty sel"
  shows "\<exists>doc' sel'. applyAddPlan st et sel doc = Inr (doc', sel') \<and>
           textInRange doc' sel' = textInRange doc sel"
proof (cases "startLineNumber sel = endLineNumber sel")
  case True
  define ln where "ln = startLineNumber sel"
  define k1 where "k1 = nat (startColumn sel - 1)"
  define k2 where "k2 = nat (endColumn sel - 1)"
  define A where "A = take k1 (lineOf doc ln)"
  define B where "B = take (k2 - k1) (drop k1 (lineOf doc ln))"
  define C where "C = drop k2 (lineOf doc ln)"
  have b: "1 \<le> ln" "ln \<le> int (length doc)" "1 \<le> startColumn sel"
    "startColumn sel < endColumn sel" "endColumn sel \<le> int (length (lineOf doc ln)) + 1"
    using valid nonempty True
    by (auto simp: validSelection_def Range_isEmpty_def ln_def)
  have k: "k1 < k2" "k2 \<le> length (lineOf doc ln)"
    using b by (auto simp: k1_def k2_def)
  have line: "lineOf doc ln = A @ B @ C"
  proof -
    have "drop k2 (lineOf doc ln) = drop (k2 - k1) (drop k1 (lineOf doc ln))"
      using k by simp
    then have "B @ C = drop k1 (lineOf doc ln)"
      by (simp only: B_def C_def append_take_drop_id)
    then show ?thesis by (simp add: A_def)
  qed
  have lenA: "int (length A) = startColumn sel - 1"
    using k b by (simp add: A_def k1_def)
  have lenB: "int (length B) = endColumn sel - startColumn sel"
    using k b by (simp add: B_def k1_def k2_def)
  have Bne: "B \<noteq> []" using lenB b by auto
  have sel_eq: "sel = newRange ln (int (length A) + 1) ln (int (length A) + int (length B) + 1)"
    using True by (subst Range_eq_newRange [of sel]) (simp add: lenA lenB ln_def)
  let ?doc' = "doc[nat (ln - 1) := A @ st @ '' '' @ B @ '' '' @ et @ C]"
  let ?sel' = "newSelection ln (int (length A) + 1 + int (length st) + 1)
                ln (int (length A) + int (length B) + 1 + int (length st) + 1)"
  have res: "applyAddPlan st et sel doc = Inr (?doc', ?sel')"
    by (subst sel_eq) (rule add_plan_same_line [OF b(1,2) line Bne])
  have old: "textInRange doc sel = [B]"
    by (subst sel_eq) (simp add: textInRange_def newRange_def line)
  have l': "lineOf ?doc' ln = A @ st @ '' '' @ B @ '' '' @ et @ C"
    using b by (simp only: lineOf_update_same)
  have d: "drop (nat (int (length A) + 1 + int (length st) + 1 - 1))
             (A @ st @ '' '' @ B @ '' '' @ et @ C) = B @ '' '' @ et @ C"
    using drop_exact [of "nat (int (length A) + 1 + int (length st) + 1 - 1)"
                         "A @ st @ '' ''" "B @ '' '' @ et @ C"]
    by (simp add: nat_add_distrib)
  have "textInRange ?doc' ?sel' = [B]"
    unfolding textInRange_def newSelection_def newRange_def
    by (simp add: l' d del: append.simps append_assoc)
  then show ?thesis using res old by simp
next
  case False
  define l1 where "l1 = startLineNumber sel"
  define l2 where "l2 = endLineNumber sel"
  define k1 where "k1 = nat (startColumn sel - 1)"
  define k2 where "k2 = nat (endColumn sel - 1)"
  define A where "A = take k1 (lineOf doc l1)"
  define R where "R = drop k1 (lineOf doc l1)"
  define B where "B = take k2 (lineOf doc l2)"
  define C where "C = drop k2 (lineOf doc l2)"
  have b: "1 \<le> l1" "l1 < l2" "l2 \<le> int (length doc)" "1 \<le> startColumn sel"
    "startColumn sel \<le> int (length (lineOf doc l1)) + 1" "1 \<le> endColumn sel"
    "endColumn sel \<le> int (length (lineOf doc l2)) + 1"
    using valid False
    by (auto simp: validSelection_def l1_def l2_def)
  have line1: "lineOf doc l1 = A @ R" by (simp add: A_def R_def)
  have line2: "lineOf doc l2 = B @ C" by (simp add: B_def C_def)
  have lenA: "int (length A) = startColumn sel - 1"
    using b by (simp add: A_def k1_def)
  have lenB: "int (length B) = endColumn sel - 1"
    using b by (simp add: B_def k2_def)
  have sel_eq: "sel = newRange l1 (int (length A) + 1) l2 (int (length B) + 1)"
    by (subst Range_eq_newRange [of sel]) (simp add: lenA lenB l1_def l2_def)
  let ?doc' = "doc[nat (l2 - 1) := B @ '' '' @ et @ C, nat (l1 - 1) := A @ st @ '' '' @ R]"
  let ?sel' = "newSelection l1 (int (length A) + 1 + int (length st) + 1) l2 (int (length B) + 1)"
  have res: "applyAddPlan st et sel doc = Inr (?doc', ?sel')"
    by (subst sel_eq) (rule add_plan_two_lines [OF b(1,2,3) line1 line2])
  have i: "nat (l1 - 1) \<noteq> nat (l2 - 1)" "nat (l1 - 1) < length doc" "nat (l2 - 1) < length doc"
    using b by linarith+
  have g1: "lineOf ?doc' l1 = A @ st @ '' '' @ R"
    using b i by (simp add: lineOf_def)
  have g2: "lineOf ?doc' l2 = B @ '' '' @ et @ C"
    using b i by (simp add: lineOf_def)
  have mid: "take (nat (l2 - l1 - 1)) (drop (nat l1) ?doc') =
             take (nat (l2 - l1 - 1)) (drop (nat l1) doc)"
  proof -
    have "drop (nat l1) ?doc' = drop (nat l1) (doc[nat (l2 - 1) := B @ '' '' @ et @ C])"
      using b by (intro drop_update_cancel) linarith
    also have "\<dots> = (drop (nat l1) doc)[nat (l2 - 1) - nat l1 := B @ '' '' @ et @ C]"
      using b by (subst drop_update_swap) (linarith, simp)
    finally have "take (nat (l2 - l1 - 1)) (drop (nat l1) ?doc') =
       take (nat (l2 - l1 - 1)) ((drop (nat l1) doc)[nat (l2 - 1) - nat l1 := B @ '' '' @ et @ C])"
      by simp
    also have "\<dots> = take (nat (l2 - l1 - 1)) (drop (nat l1) doc)"
      using b by (intro take_update_cancel) linarith
    finally show ?thesis .
  qed
  have d: "drop (nat (int (length A) + 1 + int (length st) + 1 - 1)) (A @ st @ '' '' @ R) = R"
    using drop_exact [of "nat (int (length A) + 1 + int (length st) + 1 - 1)"
                         "A @ st @ '' ''" R]
    by (simp add: nat_add_distrib)
  have old: "textInRange doc sel =
               R # take (nat (l2 - l1 - 1)) (drop (nat l1) doc) @ [B]"
    using b(2) by (subst sel_eq) (simp add: textInRange_def newRange_def line1 line2)
  have "textInRange ?doc' ?sel' = R # take (nat (l2 - l1 - 1)) (drop (nat l1) doc) @ [B]"
    unfolding textInRange_def newSelection_def newRange_def
    using b(2) by (simp add: g1 g2 d mid del: append.simps append_assoc list_update.simps)
  then show ?thesis using res old by simp
qed

lemma round_trip_example:
  "validSelection [''begin middle end''] (newRange 1 7 1 13)"
  "\<not> Range_isEmpty (newRange 1 7 1 13)"
  "applyAddPlan ''/*'' ''*/'' (newRange 1 7 1 13) [''begin middle end''] =
     Inr ([''begin /* middle */ end''], newRange 1 10 1 16)"
  "startTokenIndexOf (textModel [''begin /* middle */ end'']) (newRange 1 10 1 16) ''/*''
     = startColumn (newRange 1 7 1 13) - 1"
  "endTokenIndexOf (textModel [''begin /* middle */ end'']) (newRange 1 10 1 16) ''*/''
     = endColumn (newRange 1 10 1 16)"
  "\<not> endTokenBeforeCursorIndexOf (textModel [''begin /* middle */ end''])
         (newRange 1 10 1 16) ''*/''
       > startTokenIndexOf (textModel [''begin /* middle */ end'']) (newRange 1 10 1 16) ''/*''
           + int (length ''/*'') - 1"
  by code_simp+

section \<open>Cursor reconstruction\<close>

lemma getEditOperations_usedEndToken:
  assumes "getEditOperations getComments (newBlockCommentCommand sel) model builder
             = Inr (cmd', builder')"
  shows "usedEndToken cmd' = None \<or> (\<exists>t. t \<noteq> [] \<and> usedEndToken cmd' = Some t)"
proof (cases "getComments (getLanguageIdAtPosition model
                 (startLineNumber (selection (newBlockCommentCommand sel)))
                 (startColumn (selection (newBlockCommentCommand sel))))")
  case None
  then have "cmd' = newBlockCommentCommand sel"
    using assms by (simp add: getEditOperations_def Let_def)
  then show ?thesis by (simp add: newBlockCommentCommand_def)
next
  case (Some config)
  show ?thesis
  proof (cases "falsy (blockCommentStartToken config) \<or> falsy (blockCommentEndToken config)")
    case True
    then have "cmd' = newBlockCommentCommand sel"
      using assms Some by (simp add: getEditOperations_def Let_def)
    then show ?thesis by (simp add: newBlockCommentCommand_def)
  next
    case False
    then obtain st et where tok: "blockCommentStartToken config = Some st"
        "blockCommentEndToken config = Some et" "et \<noteq> []"
      by (auto simp: falsy_def split: option.splits)
    have "createOperationsForBlockComment (newBlockCommentCommand sel)
            (selection (newBlockCommentCommand sel)) config model builder = Inr (cmd', builder')"
      using assms Some False by (simp add: getEditOperations_def Let_def)
    then have "cmd' = newBlockCommentCommand sel \<or>
               cmd' = (newBlockCommentCommand sel)\<lparr>usedEndToken := None\<rparr> \<or>
               cmd' = (newBlockCommentCommand sel)\<lparr>usedEndToken := Some et\<rparr>"
      by (rule createOperations_cases [OF tok(1,2)])
    then show ?thesis
      using tok(3) by (auto simp: newBlockCommentCommand_def)
  qed
qed

lemma collapsed_add_cursor:
  assumes "Range_isEmpty sel" and "et \<noteq> []"
  shows "applyAddPlan st et sel doc =
           Inr (applyEdits [(sel, st @ ''  '' @ et)] doc,
                newSelection (startLineNumber sel) (startColumn sel + int (length st) + 1)
                  (startLineNumber sel) (startColumn sel + int (length st) + 1))"
  using assms
  by (simp add: applyAddPlan_def add_ops_expand submitAll_conv getInverseEditOperations_def
        computeCursorState_def newBlockCommentCommand_def newRange_def newSelection_def
        Let_def)

text \<open>
  C6. With exactly one inverse range, the new selection is collapsed at the end of that
  range, moved left by \<open>len(usedEndToken) + 1\<close> columns when an end token is recorded
  and not moved when none is. A command that went through its edit phase holds either no
  used end token or a non-empty one. For a collapsed selection, applying the add-plan
  leaves the cursor \<open>len(startToken) + 1\<close> columns after the insertion column.
\<close>

theorem computeCursorState_one_range:
  "(usedEndToken cmd = Some t \<and> t \<noteq> [] \<longrightarrow>
      computeCursorState cmd [inverseOp] =
        Inr (newSelection (endLineNumber (range_op inverseOp))
               (endColumn (range_op inverseOp) - (int (length t) + 1))
               (endLineNumber (range_op inverseOp))
               (endColumn (range_op inverseOp) - (int (length t) + 1)))) \<and>
   (usedEndToken cmd = None \<longrightarrow>
      computeCursorState cmd [inverseOp] =
        Inr (newSelection (endLineNumber (range_op inverseOp)) (endColumn (range_op inverseOp))
               (endLineNumber (range_op inverseOp)) (endColumn (range_op inverseOp)))) \<and>
   (getEditOperations getComments (newBlockCommentCommand sel) model builder
      = Inr (cmd', builder') \<longrightarrow>
      usedEndToken cmd' = None \<or> (\<exists>t'. t' \<noteq> [] \<and> usedEndToken cmd' = Some t')) \<and>
   (Range_isEmpty sel \<and> endToken \<noteq> [] \<longrightarrow>
      applyAddPlan startToken endToken sel doc =
        Inr (applyEdits [(sel, startToken @ ''  '' @ endToken)] doc,
             newSelection (startLineNumber sel) (startColumn sel + int (length startToken) + 1)
               (startLineNumber sel) (startColumn sel + int (length startToken) + 1)))"
proof (intro conjI impI)
  assume "usedEndToken cmd = Some t \<and> t \<noteq> []"
  then show "computeCursorState cmd [inverseOp] =
        Inr (newSelection (endLineNumber (range_op inverseOp))
               (endColumn (range_op inverseOp) - (int (length t) + 1))
               (endLineNumber (range_op inverseOp))
               (endColumn (range_op inverseOp) - (int (length t) + 1)))"
    by (simp add: computeCursorState_def Let_def newSelection_def newRange_def)
next
  assume "usedEndToken cmd = None"
  then show "computeCursorState cmd [inverseOp] =
        Inr (newSelection (endLineNumber (range_op inverseOp)) (endColumn (range_op inverseOp))
               (endLineNumber (range_op inverseOp)) (endColumn (range_op inverseOp)))"
    by (simp add: computeCursorState_def Let_def)
next
  assume "getEditOperations getComments (newBlockCommentCommand sel) model builder
            = Inr (cmd', builder')"
  then show "usedEndToken cmd' = None \<or> (\<exists>t'. t' \<noteq> [] \<and> usedEndToken cmd' = Some t')"
    by (rule getEditOperations_usedEndToken)
next
  assume "Range_isEmpty sel \<and> endToken \<noteq> []"
  then show "applyAddPlan startToken endToken sel doc =
        Inr (applyEdits [(sel, startToken @ ''  '' @ endToken)] doc,
             newSelection (startLineNumber sel) (startColumn sel + int (length startToken) + 1)
               (startLineNumber sel) (startColumn sel + int (length startToken) + 1))"
    using collapsed_add_cursor by blast
qed

lemma collapsed_example_result:
  "applyEdits [(newRange 1 3 1 3, ''/*'' @ ''  '' @ ''*/'')] [''a x b''] = [''a /*  */x b'']"
  by code_simp

theorem computeCursorState_one_range_witness:
  "applyAddPlan ''/*'' ''*/'' (newRange 1 3 1 3) [''a x b''] =
     Inr ([''a /*  */x b''], newSelection 1 (3 + int (length ''/*'') + 1)
                               1 (3 + int (length ''/*'') + 1))"
proof -
  have e: "Range_isEmpty (newRange 1 3 1 3) \<and> ''*/'' \<noteq> []"
    by (simp add: Range_isEmpty_def newRange_def)
  have s: "startLineNumber (newRange 1 3 1 3) = 1" "startColumn (newRange 1 3 1 3) = 3"
    by (simp_all add: newRange_def)
  show ?thesis
    using computeCursorState_one_range
            [THEN conjunct2, THEN conjunct2, THEN conjunct2, THEN mp, OF e,
             of "''/*''" "[''a x b'']"]
    by (simp only: s collapsed_example_result)
qed

text \<open>
  C7. With exactly two inverse ranges, the new selection goes from the end position of
  the first range to the start position of the second. For the two operations of the
  add-plan of a non-collapsed selection of a document, that selection holds exactly the
  text that was selected.
\<close>

theorem computeCursorState_two_ranges:
  "computeCursorState cmd [first, second] =
     Inr (newSelection (endLineNumber (range_op first)) (endColumn (range_op first))
            (startLineNumber (range_op second)) (startColumn (range_op second))) \<and>
   (validSelection doc sel \<and> \<not> Range_isEmpty sel \<longrightarrow>
      (\<exists>doc' sel'. applyAddPlan startToken endToken sel doc = Inr (doc', sel') \<and>
         textInRange doc' sel' = textInRange doc sel))"
proof (intro conjI impI)
  show "computeCursorState cmd [first, second] =
     Inr (newSelection (endLineNumber (range_op first)) (endColumn (range_op first))
            (startLineNumber (range_op second)) (startColumn (range_op second)))"
    by (simp add: computeCursorState_def Let_def)
next
  assume "validSelection doc sel \<and> \<not> Range_isEmpty sel"
  then show "\<exists>doc' sel'. applyAddPlan startToken endToken sel doc = Inr (doc', sel') \<and>
         textInRange doc' sel' = textInRange doc sel"
    using add_plan_keeps_selected_text by blast
qed

theorem computeCursorState_two_ranges_witness:
  "computeCursorState (newBlockCommentCommand (newRange 1 7 1 13))
     [\<lparr>range_op = newRange 1 7 1 10, text_op = []\<rparr>,
      \<lparr>range_op = newRange 1 16 1 19, text_op = []\<rparr>] =
   Inr (newSelection 1 10 1 16) \<and>
   textInRange [''begin /* middle */ end''] (newRange 1 10 1 16) =
     textInRange [''begin middle end''] (newRange 1 7 1 13)"
proof -
  have v: "validSelection [''begin middle end''] (newRange 1 7 1 13) \<and>
           \<not> Range_isEmpty (newRange 1 7 1 13)"
    using round_trip_example(1,2) by simp
  have "computeCursorState (newBlockCommentCommand (newRange 1 7 1 13))
     [\<lparr>range_op = newRange 1 7 1 10, text_op = []\<rparr>,
      \<lparr>range_op = newRange 1 16 1 19, text_op = []\<rparr>] =
   Inr (newSelection 1 10 1 16)"
    using computeCursorState_two_ranges
          [where cmd = "newBlockCommentCommand (newRange 1 7 1 13)"
             and first = "\<lparr>range_op = newRange 1 7 1 10, text_op = []\<rparr>"
             and second = "\<lparr>range_op = newRange 1 16 1 19, text_op = []\<rparr>",
           THEN conjunct1]
    by (simp add: newRange_def)
  moreover have "textInRange [''begin /* middle */ end''] (newRange 1 10 1 16) =
     textInRange [''begin middle end''] (newRange 1 7 1 13)"
    using computeCursorState_two_ranges
          [where doc = "[''begin middle end'']" and sel = "newRange 1 7 1 13"
             and startToken = "''/*''" and endToken = "''*/''",
           THEN conjunct2, THEN mp, OF v]
    by (simp add: round_trip_example(3))
  ultimately show ?thesis by simp
qed

section \<open>Round trip\<close>

lemma remove_run_same_line:
  fixes doc :: "string list"
  assumes ln: "1 \<le> ln" "ln \<le> int (length doc)"
    and line: "lineOf doc ln = A @ B @ C" and B: "B \<noteq> []"
    and doc1: "doc1 = doc[nat (ln - 1) := A @ st @ '' '' @ B @ '' '' @ et @ C]"
    and sel1: "sel1 = newSelection ln (int (length A) + 1 + int (length st) + 1)
                        ln (int (length A) + int (length B) + 1 + int (length st) + 1)"
    and H1: "startTokenIndexOf (textModel doc1) sel1 st = int (length A)"
    and H2: "endTokenIndexOf (textModel doc1) sel1 et =
               int (length A) + int (length B) + 1 + int (length st) + 1"
    and H3: "\<not> endTokenBeforeCursorIndexOf (textModel doc1) sel1 et
                 > startTokenIndexOf (textModel doc1) sel1 st + int (length st) - 1"
  shows "runCommand \<lparr>blockCommentStartToken = Some st, blockCommentEndToken = Some et\<rparr>
           sel1 doc1 =
         Inr (doc, newRange ln (int (length A) + 1) ln (int (length A) + int (length B) + 1))"
proof -
  let ?cfg = "\<lparr>blockCommentStartToken = Some st, blockCommentEndToken = Some et\<rparr>"
  let ?line1 = "A @ st @ '' '' @ B @ '' '' @ et @ C"
  let ?d1 = "(newRange ln (int (length A) + 1) ln (int (length A) + 1 + int (length st) + 1),
              [] :: string)"
  let ?e = "int (length A) + int (length B) + 1 + int (length st) + 1"
  let ?d2 = "(newRange ln ?e ln (?e + 1 + int (length et)), [] :: string)"
  have len1: "length doc1 = length doc" by (simp add: doc1)
  have l1: "lineOf doc1 ln = ?line1"
    using ln by (simp only: doc1 lineOf_update_same)
  have sl: "startLineNumber sel1 = ln" "endLineNumber sel1 = ln"
    by (simp_all add: sel1 newSelection_def newRange_def)
  have gl: "getLineContent (textModel doc1) ln = ?line1"
    by (simp add: textModel_def l1)
  have sp1: "charCodeAt ?line1 (int (length A) + int (length st)) = Some (CHR '' '')"
    using charCodeAt_append_mid [of "A @ st" "CHR '' ''" "B @ '' '' @ et @ C"] by simp
  have sp2: "charCodeAt ?line1 (?e - 1) = Some (CHR '' '')"
    using charCodeAt_append_mid [of "A @ st @ '' '' @ B" "CHR '' ''" "et @ C"]
    by (simp add: add.commute add.left_commute)
  have ops: "createOperationsForBlockComment (newBlockCommentCommand sel1) sel1 ?cfg
               (textModel doc1) [] = Inr (newBlockCommentCommand sel1, [?d1, ?d2])"
  proof -
    have f1: "startTokenIndexOf (textModel doc1) sel1 st \<noteq> - 1" using H1 by simp
    have f2: "endTokenIndexOf (textModel doc1) sel1 et \<noteq> - 1" using H2 by simp
    show ?thesis
      unfolding remove_branch_submitted
                  [of ?cfg st et "textModel doc1" sel1 "newBlockCommentCommand sel1" "[]",
                   OF _ _ f1 f2 H3, simplified]
      unfolding H1 H2 sl gl Let_def
      using B sp1 sp2 by (simp add: add.commute add.left_commute)
  qed
  have a2: "applyEdit ?d2 doc1 = doc[nat (ln - 1) := A @ st @ '' '' @ B @ C]"
  proof -
    have t: "take (nat (?e - 1)) ?line1 = A @ st @ '' '' @ B"
      using take_exact [of "nat (?e - 1)" "A @ st @ '' '' @ B" "'' '' @ et @ C"]
      by (simp add: nat_add_distrib)
    have d: "drop (nat (?e + 1 + int (length et) - 1)) ?line1 = C"
      using drop_exact [of "nat (?e + 1 + int (length et) - 1)"
                           "A @ st @ '' '' @ B @ '' '' @ et" C]
      by (simp add: nat_add_distrib)
    show ?thesis
      using ln len1
      by (simp only: applyEdit_single_line [of ln doc1] l1 t d) (simp add: doc1)
  qed
  have a1: "applyEdit ?d1 (doc[nat (ln - 1) := A @ st @ '' '' @ B @ C]) = doc"
  proof -
    let ?doc2 = "doc[nat (ln - 1) := A @ st @ '' '' @ B @ C]"
    have l2: "lineOf ?doc2 ln = A @ st @ '' '' @ B @ C"
      using ln by (simp only: lineOf_update_same)
    have t: "take (nat (int (length A) + 1 - 1)) (A @ st @ '' '' @ B @ C) = A"
      by simp
    have d: "drop (nat (int (length A) + 1 + int (length st) + 1 - 1))
               (A @ st @ '' '' @ B @ C) = B @ C"
      using drop_exact [of "nat (int (length A) + 1 + int (length st) + 1 - 1)"
                           "A @ st @ '' ''" "B @ C"]
      by (simp add: nat_add_distrib)
    have "doc ! nat (ln - 1) = A @ B @ C"
      using ln line by (simp add: lineOf_def)
    then have id: "doc[nat (ln - 1) := A @ B @ C] = doc"
      by (metis list_update_id)
    have "length ?doc2 = length doc" by simp
    then show ?thesis
      using ln
      by (simp only: applyEdit_single_line [of ln ?doc2] l2 t d) (simp add: id)
  qed
  have ap: "applyEdits [?d1, ?d2] doc1 = doc"
    by (simp only: applyEdits_def foldr.simps comp_apply id_apply a2 a1)
  have cur: "computeCursorState (newBlockCommentCommand sel1)
               (getInverseEditOperations [?d1, ?d2] doc1) =
             Inr (newRange ln (int (length A) + 1) ln (int (length A) + int (length B) + 1))"
    by (simp add: getInverseEditOperations_def computeCursorState_def Let_def newRange_def
          newSelection_def)
  show ?thesis
    unfolding runCommand_def ops
    by (simp only: sum.case prod.case cur ap)
qed

lemma remove_run_two_lines:
  fixes doc :: "string list"
  assumes ln: "1 \<le> l1" "l1 < l2" "l2 \<le> int (length doc)"
    and line1: "lineOf doc l1 = A @ R" and line2: "lineOf doc l2 = B @ C"
    and doc1: "doc1 = doc[nat (l2 - 1) := B @ '' '' @ et @ C,
                         nat (l1 - 1) := A @ st @ '' '' @ R]"
    and sel1: "sel1 = newSelection l1 (int (length A) + 1 + int (length st) + 1)
                        l2 (int (length B) + 1)"
    and H1: "startTokenIndexOf (textModel doc1) sel1 st = int (length A)"
    and H2: "endTokenIndexOf (textModel doc1) sel1 et = int (length B) + 1"
    and H3: "\<not> endTokenBeforeCursorIndexOf (textModel doc1) sel1 et
                 > startTokenIndexOf (textModel doc1) sel1 st + int (length st) - 1"
  shows "runCommand \<lparr>blockCommentStartToken = Some st, blockCommentEndToken = Some et\<rparr>
           sel1 doc1 =
         Inr (doc, newRange l1 (int (length A) + 1) l2 (int (length B) + 1))"
proof -
  let ?cfg = "\<lparr>blockCommentStartToken = Some st, blockCommentEndToken = Some et\<rparr>"
  let ?n1 = "A @ st @ '' '' @ R"
  let ?n2 = "B @ '' '' @ et @ C"
  let ?d1 = "(newRange l1 (int (length A) + 1) l1 (int (length A) + 1 + int (length st) + 1),
              [] :: string)"
  let ?d2 = "(newRange l2 (int (length B) + 1) l2 (int (length B) + 1 + 1 + int (length et)),
              [] :: string)"
  have i: "nat (l1 - 1) \<noteq> nat (l2 - 1)" "nat (l1 - 1) < length doc" "nat (l2 - 1) < length doc"
    using ln by linarith+
  have len1: "length doc1 = length doc" by (simp add: doc1)
  have g1: "lineOf doc1 l1 = ?n1"
    using ln i by (simp add: doc1 lineOf_def)
  have g2: "lineOf doc1 l2 = ?n2"
    using ln i by (simp add: doc1 lineOf_def)
  have sl: "startLineNumber sel1 = l1" "endLineNumber sel1 = l2"
    by (simp_all add: sel1 newSelection_def newRange_def)
  have gl: "getLineContent (textModel doc1) l1 = ?n1" "getLineContent (textModel doc1) l2 = ?n2"
    by (simp_all add: textModel_def g1 g2)
  have sp1: "charCodeAt ?n1 (int (length A) + int (length st)) = Some (CHR '' '')"
    using charCodeAt_append_mid [of "A @ st" "CHR '' ''" R] by simp
  have sp2: "charCodeAt ?n2 (int (length B) + 1 - 1) = Some (CHR '' '')"
    using charCodeAt_append_mid [of B "CHR '' ''" "et @ C"] by simp
  have ops: "createOperationsForBlockComment (newBlockCommentCommand sel1) sel1 ?cfg
               (textModel doc1) [] = Inr (newBlockCommentCommand sel1, [?d1, ?d2])"
  proof -
    have f1: "startTokenIndexOf (textModel doc1) sel1 st \<noteq> - 1" using H1 by simp
    have f2: "endTokenIndexOf (textModel doc1) sel1 et \<noteq> - 1" using H2 by simp
    show ?thesis
      unfolding remove_branch_submitted
                  [of ?cfg st et "textModel doc1" sel1 "newBlockCommentCommand sel1" "[]",
                   OF _ _ f1 f2 H3, simplified]
      unfolding H1 H2 sl gl Let_def
      using ln(2) sp1 sp2 by (simp add: add.commute add.left_commute)
  qed
  have a2: "applyEdit ?d2 doc1 = doc1[nat (l2 - 1) := B @ C]"
  proof -
    have t: "take (nat (int (length B) + 1 - 1)) ?n2 = B"
      by simp
    have d: "drop (nat (int (length B) + 1 + 1 + int (length et) - 1)) ?n2 = C"
      using drop_exact [of "nat (int (length B) + 1 + 1 + int (length et) - 1)"
                           "B @ '' '' @ et" C]
      by (simp add: nat_add_distrib)
    have "1 \<le> l2" using ln by linarith
    then show ?thesis
      using ln len1
      by (simp only: applyEdit_single_line [of l2 doc1] g2 t d) simp
  qed
  have a1: "applyEdit ?d1 (doc1[nat (l2 - 1) := B @ C]) = doc"
  proof -
    let ?doc2 = "doc1[nat (l2 - 1) := B @ C]"
    have g: "lineOf ?doc2 l1 = ?n1"
      using ln i by (simp add: doc1 lineOf_def)
    have t: "take (nat (int (length A) + 1 - 1)) ?n1 = A"
      by simp
    have d: "drop (nat (int (length A) + 1 + int (length st) + 1 - 1)) ?n1 = R"
      using drop_exact [of "nat (int (length A) + 1 + int (length st) + 1 - 1)"
                           "A @ st @ '' ''" R]
      by (simp add: nat_add_distrib)
    have o1: "doc ! nat (l1 - 1) = A @ R"
      using ln line1 by (simp add: lineOf_def)
    have o2: "doc ! nat (l2 - 1) = B @ C"
      using ln line2 by (simp add: lineOf_def)
    have restored: "?doc2[nat (l1 - 1) := A @ R] = doc"
    proof (rule nth_equalityI)
      show "length (?doc2[nat (l1 - 1) := A @ R]) = length doc"
        by (simp add: doc1)
    next
      fix k assume "k < length (?doc2[nat (l1 - 1) := A @ R])"
      then have "k < length doc" by (simp add: doc1)
      then show "?doc2[nat (l1 - 1) := A @ R] ! k = doc ! k"
        using o1 o2 i by (auto simp add: doc1 nth_list_update)
    qed
    have "length ?doc2 = length doc" by (simp add: doc1)
    then have "l1 \<le> int (length ?doc2)" using ln by linarith
    then show ?thesis
      using ln(1)
      by (simp only: applyEdit_single_line [of l1 ?doc2] g t d append_Nil restored)
  qed
  have ap: "applyEdits [?d1, ?d2] doc1 = doc"
    by (simp only: applyEdits_def foldr.simps comp_apply id_apply a2 a1)
  have cur: "computeCursorState (newBlockCommentCommand sel1)
               (getInverseEditOperations [?d1, ?d2] doc1) =
             Inr (newRange l1 (int (length A) + 1) l2 (int (length B) + 1))"
    using ln(2)
    by (simp add: getInverseEditOperations_def computeCursorState_def Let_def newRange_def
          newSelection_def)
  show ?thesis
    unfolding runCommand_def ops
    by (simp only: sum.case prod.case cur ap)
qed

text \<open>
  C1, as amended. For a non-collapsed selection of a document and non-empty tokens, let
  the add-plan be applied and the command run again on the selection the cursor phase left.
  If that second run locates the inserted start token (at the offset of the original
  selection start), locates the inserted end token (one offset after the space that follows
  the new selection), and its lookback for an end token on the start line does not land
  after the located start token, then the second run takes the remove branch for the
  inserted tokens and restores the original document, and the original selection with it.
\<close>

theorem add_then_toggle_round_trip:
  assumes valid: "validSelection doc sel"
    and nonempty: "\<not> Range_isEmpty sel"
    and tokens: "st \<noteq> []" "et \<noteq> []"
    and added: "applyAddPlan st et sel doc = Inr (doc1, sel1)"
    and H1: "startTokenIndexOf (textModel doc1) sel1 st = startColumn sel - 1"
    and H2: "endTokenIndexOf (textModel doc1) sel1 et = endColumn sel1"
    and H3: "\<not> endTokenBeforeCursorIndexOf (textModel doc1) sel1 et
                 > startTokenIndexOf (textModel doc1) sel1 st + int (length st) - 1"
  shows "addThenToggle st et sel doc = Inr (doc, sel)"
proof (cases "startLineNumber sel = endLineNumber sel")
  case True
  define ln where "ln = startLineNumber sel"
  define k1 where "k1 = nat (startColumn sel - 1)"
  define k2 where "k2 = nat (endColumn sel - 1)"
  define A where "A = take k1 (lineOf doc ln)"
  define B where "B = take (k2 - k1) (drop k1 (lineOf doc ln))"
  define C where "C = drop k2 (lineOf doc ln)"
  have b: "1 \<le> ln" "ln \<le> int (length doc)" "1 \<le> startColumn sel"
    "startColumn sel < endColumn sel" "endColumn sel \<le> int (length (lineOf doc ln)) + 1"
    using valid nonempty True
    by (auto simp: validSelection_def Range_isEmpty_def ln_def)
  have k: "k1 < k2" "k2 \<le> length (lineOf doc ln)"
    using b by (auto simp: k1_def k2_def)
  have line: "lineOf doc ln = A @ B @ C"
  proof -
    have "drop k2 (lineOf doc ln) = drop (k2 - k1) (drop k1 (lineOf doc ln))"
      using k by simp
    then have "B @ C = drop k1 (lineOf doc ln)"
      by (simp only: B_def C_def append_take_drop_id)
    then show ?thesis by (simp add: A_def)
  qed
  have lenA: "int (length A) = startColumn sel - 1"
    using k b by (simp add: A_def k1_def)
  have lenB: "int (length B) = endColumn sel - startColumn sel"
    using k b by (simp add: B_def k1_def k2_def)
  have Bne: "B \<noteq> []" using lenB b by auto
  have sel_eq: "sel = newRange ln (int (length A) + 1) ln (int (length A) + int (length B) + 1)"
    using True by (subst Range_eq_newRange [of sel]) (simp add: lenA lenB ln_def)
  have res: "applyAddPlan st et sel doc =
         Inr (doc[nat (ln - 1) := A @ st @ '' '' @ B @ '' '' @ et @ C],
              newSelection ln (int (length A) + 1 + int (length st) + 1)
                ln (int (length A) + int (length B) + 1 + int (length st) + 1))"
    by (subst sel_eq) (rule add_plan_same_line [OF b(1,2) line Bne])
  have d1: "doc1 = doc[nat (ln - 1) := A @ st @ '' '' @ B @ '' '' @ et @ C]"
    and s1: "sel1 = newSelection ln (int (length A) + 1 + int (length st) + 1)
                ln (int (length A) + int (length B) + 1 + int (length st) + 1)"
    using res added by simp_all
  have e1: "endColumn sel1 = int (length A) + int (length B) + 1 + int (length st) + 1"
    by (simp add: s1 newSelection_def newRange_def)
  have "runCommand \<lparr>blockCommentStartToken = Some st, blockCommentEndToken = Some et\<rparr>
           sel1 doc1 =
         Inr (doc, newRange ln (int (length A) + 1) ln (int (length A) + int (length B) + 1))"
    using H1 H2 H3
    by (intro remove_run_same_line [OF b(1,2) line Bne d1 s1]) (simp_all add: lenA e1)
  then show ?thesis
    unfolding addThenToggle_def added
    by (simp only: sum.case prod.case sel_eq [symmetric])
next
  case False
  define l1 where "l1 = startLineNumber sel"
  define l2 where "l2 = endLineNumber sel"
  define k1 where "k1 = nat (startColumn sel - 1)"
  define k2 where "k2 = nat (endColumn sel - 1)"
  define A where "A = take k1 (lineOf doc l1)"
  define R where "R = drop k1 (lineOf doc l1)"
  define B where "B = take k2 (lineOf doc l2)"
  define C where "C = drop k2 (lineOf doc l2)"
  have b: "1 \<le> l1" "l1 < l2" "l2 \<le> int (length doc)" "1 \<le> startColumn sel"
    "startColumn sel \<le> int (length (lineOf doc l1)) + 1" "1 \<le> endColumn sel"
    "endColumn sel \<le> int (length (lineOf doc l2)) + 1"
    using valid False
    by (auto simp: validSelection_def l1_def l2_def)
  have line1: "lineOf doc l1 = A @ R" by (simp add: A_def R_def)
  have line2: "lineOf doc l2 = B @ C" by (simp add: B_def C_def)
  have lenA: "int (length A) = startColumn sel - 1"
    using b by (simp add: A_def k1_def)
  have lenB: "int (length B) = endColumn sel - 1"
    using b by (simp add: B_def k2_def)
  have sel_eq: "sel = newRange l1 (int (length A) + 1) l2 (int (length B) + 1)"
    by (subst Range_eq_newRange [of sel]) (simp add: lenA lenB l1_def l2_def)
  have res: "applyAddPlan st et sel doc =
         Inr (doc[nat (l2 - 1) := B @ '' '' @ et @ C, nat (l1 - 1) := A @ st @ '' '' @ R],
              newSelection l1 (int (length A) + 1 + int (length st) + 1)
                l2 (int (length B) + 1))"
    by (subst sel_eq) (rule add_plan_two_lines [OF b(1,2,3) line1 line2])
  have d1: "doc1 = doc[nat (l2 - 1) := B @ '' '' @ et @ C, nat (l1 - 1) := A @ st @ '' '' @ R]"
    and s1: "sel1 = newSelection l1 (int (length A) + 1 + int (length st) + 1)
                l2 (int (length B) + 1)"
    using res added by simp_all
  have e1: "endColumn sel1 = int (length B) + 1"
    by (simp add: s1 newSelection_def newRange_def)
  have "runCommand \<lparr>blockCommentStartToken = Some st, blockCommentEndToken = Some et\<rparr>
           sel1 doc1 =
         Inr (doc, newRange l1 (int (length A) + 1) l2 (int (length B) + 1))"
    using H1 H2 H3
    by (intro remove_run_two_lines [OF b(1,2,3) line1 line2 d1 s1]) (simp_all add: lenA e1)
  then show ?thesis
    unfolding addThenToggle_def added
    by (simp only: sum.case prod.case sel_eq [symmetric])
qed

lemma round_trip_example_two_lines:
  "validSelection [''ab cd'', ''ef gh''] (newRange 1 4 2 3)"
  "\<not> Range_isEmpty (newRange 1 4 2 3)"
  "applyAddPlan ''/*'' ''*/'' (newRange 1 4 2 3) [''ab cd'', ''ef gh''] =
     Inr ([''ab /* cd'', ''ef */ gh''], newRange 1 7 2 3)"
  "startTokenIndexOf (textModel [''ab /* cd'', ''ef */ gh'']) (newRange 1 7 2 3) ''/*''
     = startColumn (newRange 1 4 2 3) - 1"
  "endTokenIndexOf (textModel [''ab /* cd'', ''ef */ gh'']) (newRange 1 7 2 3) ''*/''
     = endColumn (newRange 1 7 2 3)"
  "\<not> endTokenBeforeCursorIndexOf (textModel [''ab /* cd'', ''ef */ gh''])
         (newRange 1 7 2 3) ''*/''
       > startTokenIndexOf (textModel [''ab /* cd'', ''ef */ gh'']) (newRange 1 7 2 3) ''/*''
           + int (length ''/*'') - 1"
  by code_simp+

theorem add_then_toggle_round_trip_witness:
  "addThenToggle ''/*'' ''*/'' (newRange 1 7 1 13) [''begin middle end''] =
     Inr ([''begin middle end''], newRange 1 7 1 13) \<and>
   addThenToggle ''/*'' ''*/'' (newRange 1 4 2 3) [''ab cd'', ''ef gh''] =
     Inr ([''ab cd'', ''ef gh''], newRange 1 4 2 3)"
proof
  show "addThenToggle ''/*'' ''*/'' (newRange 1 7 1 13) [''begin middle end''] =
     Inr ([''begin middle end''], newRange 1 7 1 13)"
    by (rule add_then_toggle_round_trip
               [OF round_trip_example(1,2) _ _ round_trip_example(3-6)])
       simp_all
  show "addThenToggle ''/*'' ''*/'' (newRange 1 4 2 3) [''ab cd'', ''ef gh''] =
     Inr ([''ab cd'', ''ef gh''], newRange 1 4 2 3)"
    by (rule add_then_toggle_round_trip
               [OF round_trip_example_two_lines(1,2) _ _ round_trip_example_two_lines(3-6)])
       simp_all
qed

text \<open>
  C1, as stated, fails: when the selected text begins with the start token, the second
  run locates that occurrence instead of the inserted one and deletes it together with the
  inserted end token, so the document is not restored.
\<close>

theorem round_trip_counterexample:
  "validSelection [''/*x''] (newRange 1 1 1 4) \<and>
   \<not> Range_isEmpty (newRange 1 1 1 4) \<and>
   ''/*'' \<noteq> [] \<and> ''*/'' \<noteq> [] \<and>
   applyAddPlan ''/*'' ''*/'' (newRange 1 1 1 4) [''/*x''] =
     Inr ([''/* /*x */''], newRange 1 4 1 7) \<and>
   addThenToggle ''/*'' ''*/'' (newRange 1 1 1 4) [''/*x''] =
     Inr ([''/* x''], newRange 1 4 1 5) \<and>
   [''/* x''] \<noteq> [''/*x'']"
  by code_simp

end
